theory Spec2Isabelle
  imports Complex_Main
begin

section \<open>Runtime library used by the handlers\<close>

text \<open>
  Strings are byte lists. The quote characters and the backslash are written by code.
  JavaScript numbers are modelled by the reals (times, priorities) or by naturals
  (sizes, clock readings, counters). Where a result depends on how the runtime rounds
  double arithmetic, the rounded value or the operation is a parameter taken from the
  runtime, and the section that uses it says so.
\<close>

definition dq :: char where "dq = CHR 0x22"
definition sq :: char where "sq = CHR 0x27"
definition bs :: char where "bs = CHR 0x5C"

function decimal :: "nat \<Rightarrow> string" where
  "decimal n =
     (if n < 10 then [char_of (48 + n)]
      else decimal (n div 10) @ [char_of (48 + n mod 10)])"
  by pat_completeness auto
termination
  by (relation "measure id") auto

text \<open>\<open>Math.round\<close>: the nearest integer, a tie going up.\<close>

definition Math_round :: "real \<Rightarrow> int" where
  "Math_round x = \<lfloor>x + 1 / 2\<rfloor>"

subsection \<open>\<open>JSON.parse\<close>\<close>

text \<open>
  The upload handler calls \<open>JSON.parse\<close> on a form field, and \<open>JSON.parse\<close> throws a
  \<open>SyntaxError\<close> on text outside the JSON grammar. The recogniser below follows that
  grammar; \<open>None\<close> is the thrown \<open>SyntaxError\<close>. Numbers and strings keep their source
  text. The fuel bounds the nesting and is twice the length of the text.
\<close>

datatype json =
    JNull
  | JBool bool
  | JNumber string
  | JString string
  | JArray "json list"
  | JObject "(string \<times> json) list"

definition is_ws :: "char \<Rightarrow> bool" where
  "is_ws c \<longleftrightarrow> c = CHR 0x20 \<or> c = CHR 0x09 \<or> c = CHR 0x0A \<or> c = CHR 0x0D"

definition skip_ws :: "string \<Rightarrow> string" where
  "skip_ws s = dropWhile is_ws s"

definition is_digit :: "char \<Rightarrow> bool" where
  "is_digit c \<longleftrightarrow> (48::nat) \<le> of_char c \<and> of_char c \<le> (57::nat)"

definition is_hex :: "char \<Rightarrow> bool" where
  "is_hex c \<longleftrightarrow> is_digit c \<or> c \<in> set ''abcdefABCDEF''"

fun json_string_body :: "string \<Rightarrow> string \<Rightarrow> (string \<times> string) option" where
  "json_string_body acc [] = None"
| "json_string_body acc (c # cs) =
     (if c = dq then Some (rev acc, cs)
      else if c = bs then
        (case cs of
           [] \<Rightarrow> None
         | e # r \<Rightarrow>
             if e = dq \<or> e = bs \<or> e \<in> set ''/bfnrt'' then json_string_body (e # c # acc) r
             else if e = CHR ''u'' \<and> 4 \<le> length r \<and> list_all is_hex (take 4 r)
               then json_string_body (rev (take 4 r) @ e # c # acc) (drop 4 r)
             else None)
      else if of_char c < (32::nat) then None
      else json_string_body (c # acc) cs)"

definition json_digits :: "string \<Rightarrow> (string \<times> string) option" where
  "json_digits s =
     (if takeWhile is_digit s = [] then None
      else Some (takeWhile is_digit s, dropWhile is_digit s))"

definition json_int :: "string \<Rightarrow> (string \<times> string) option" where
  "json_int s =
     (case s of
        [] \<Rightarrow> None
      | c # r \<Rightarrow> if c = CHR ''0'' then Some (''0'', r) else json_digits s)"

definition json_frac :: "string \<Rightarrow> (string \<times> string) option" where
  "json_frac s =
     (case s of
        [] \<Rightarrow> Some ([], s)
      | c # r \<Rightarrow>
          if c = CHR ''.'' then map_option (\<lambda>(d, r'). (c # d, r')) (json_digits r)
          else Some ([], s))"

definition json_exp :: "string \<Rightarrow> (string \<times> string) option" where
  "json_exp s =
     (case s of
        [] \<Rightarrow> Some ([], s)
      | c # r \<Rightarrow>
          if c = CHR ''e'' \<or> c = CHR ''E'' then
            (case r of
               [] \<Rightarrow> None
             | g # r' \<Rightarrow>
                 if g = CHR ''+'' \<or> g = CHR ''-''
                 then map_option (\<lambda>(d, r''). (c # g # d, r'')) (json_digits r')
                 else map_option (\<lambda>(d, r''). (c # d, r'')) (json_digits r))
          else Some ([], s))"

definition json_number :: "string \<Rightarrow> (string \<times> string) option" where
  "json_number s =
     (let (sign, s1) = (case s of [] \<Rightarrow> ([], s) | c # r \<Rightarrow> if c = CHR ''-'' then ([c], r) else ([], s))
      in case json_int s1 of
           None \<Rightarrow> None
         | Some (i, s2) \<Rightarrow>
             (case json_frac s2 of
                None \<Rightarrow> None
              | Some (f, s3) \<Rightarrow>
                  (case json_exp s3 of
                     None \<Rightarrow> None
                   | Some (e, s4) \<Rightarrow> Some (sign @ i @ f @ e, s4))))"

fun json_value :: "nat \<Rightarrow> string \<Rightarrow> (json \<times> string) option"
  and json_elements :: "nat \<Rightarrow> json list \<Rightarrow> string \<Rightarrow> (json list \<times> string) option"
  and json_members ::
    "nat \<Rightarrow> (string \<times> json) list \<Rightarrow> string \<Rightarrow> ((string \<times> json) list \<times> string) option"
where
  "json_value 0 s = None"
| "json_value (Suc n) s =
     (case skip_ws s of
        [] \<Rightarrow> None
      | c # r \<Rightarrow>
          if c = CHR ''{'' then
            (if take 1 (skip_ws r) = ''}'' then Some (JObject [], drop 1 (skip_ws r))
             else map_option (\<lambda>(ms, r'). (JObject ms, r')) (json_members n [] r))
          else if c = CHR ''['' then
            (if take 1 (skip_ws r) = '']'' then Some (JArray [], drop 1 (skip_ws r))
             else map_option (\<lambda>(vs, r'). (JArray vs, r')) (json_elements n [] r))
          else if c = dq then map_option (\<lambda>(t, r'). (JString t, r')) (json_string_body [] r)
          else if take 4 (c # r) = ''true'' then Some (JBool True, drop 4 (c # r))
          else if take 5 (c # r) = ''false'' then Some (JBool False, drop 5 (c # r))
          else if take 4 (c # r) = ''null'' then Some (JNull, drop 4 (c # r))
          else map_option (\<lambda>(t, r'). (JNumber t, r')) (json_number (c # r)))"
| "json_elements 0 acc s = None"
| "json_elements (Suc n) acc s =
     (case json_value n s of
        None \<Rightarrow> None
      | Some (v, r) \<Rightarrow>
          (case skip_ws r of
             [] \<Rightarrow> None
           | c # r' \<Rightarrow>
               if c = CHR '','' then json_elements n (v # acc) r'
               else if c = CHR '']'' then Some (rev (v # acc), r')
               else None))"
| "json_members 0 acc s = None"
| "json_members (Suc n) acc s =
     (case skip_ws s of
        [] \<Rightarrow> None
      | q # r \<Rightarrow>
          if q \<noteq> dq then None
          else
            (case json_string_body [] r of
               None \<Rightarrow> None
             | Some (k, r1) \<Rightarrow>
                 (case skip_ws r1 of
                    [] \<Rightarrow> None
                  | c # r2 \<Rightarrow>
                      if c \<noteq> CHR '':'' then None
                      else
                        (case json_value n r2 of
                           None \<Rightarrow> None
                         | Some (v, r3) \<Rightarrow>
                             (case skip_ws r3 of
                                [] \<Rightarrow> None
                              | d # r4 \<Rightarrow>
                                  if d = CHR '','' then json_members n ((k, v) # acc) r4
                                  else if d = CHR ''}'' then Some (rev ((k, v) # acc), r4)
                                  else None)))))"

definition JSON_parse :: "string \<Rightarrow> json option" where
  "JSON_parse s =
     (case json_value (Suc (2 * length s)) s of
        None \<Rightarrow> None
      | Some (v, r) \<Rightarrow> if skip_ws r = [] then Some v else None)"


section \<open>Upload handler (\<open>POST\<close> of the upload route)\<close>

text \<open>
  Records carry the source's field names behind a short tag of the record, since field
  names are global in HOL. The form data holds the four fields the handler reads;
  \<open>None\<close> is the \<open>null\<close> that \<open>formData.get\<close> returns for an absent field. The clock and
  the random generator are read through \<open>upload_env\<close>. A response is its HTTP status and
  its JSON body.
\<close>

record File =
  file_name :: string
  file_size :: nat
  file_type :: string

record FormData =
  fd_video :: "File option"
  fd_style :: "string option"
  fd_pace :: "string option"
  fd_colors :: "string option"

record upload_env =
  ue_now :: nat
  ue_random36 :: string
  ue_iso_created :: string
  ue_iso_updated :: string

datatype VideoStatus = Uploading | Queued | Processing | Completed | Error

record Video =
  v_id :: string
  v_user_id :: string
  v_title :: "string option"
  v_original_url :: string
  v_processed_url :: "string option"
  v_thumbnail_url :: "string option"
  v_status :: VideoStatus
  v_duration :: "real option"
  v_format :: "string option"
  v_aspect_ratio :: "string option"
  v_style_config :: json
  v_ai_analysis :: "json option"
  v_created_at :: string
  v_updated_at :: string

datatype upload_body =
    ErrorBody string
  | SyntaxErrorBody
  | UploadBody Video string

record upload_response =
  ur_status :: nat
  ur_body :: upload_body

definition msg_no_file :: string where
  "msg_no_file = ''Nenhum arquivo de v'' @ [CHR 0xC3, CHR 0xAD] @ ''deo fornecido''"

definition msg_too_large :: string where
  "msg_too_large = ''Arquivo muito grande. M'' @ [CHR 0xC3, CHR 0xA1] @ ''ximo: 500MB''"

definition msg_invalid_format :: string where
  "msg_invalid_format = ''Formato inv'' @ [CHR 0xC3, CHR 0xA1] @ ''lido. Use MP4 ou MOV''"

definition msg_uploaded :: string where
  "msg_uploaded =
     ''V'' @ [CHR 0xC3, CHR 0xAD] @ ''deo enviado com sucesso! Iniciando processamento...''"

definition maxSize :: nat where
  "maxSize = 500 * 1024 * 1024"

definition validTypes :: "string list" where
  "validTypes = [''video/mp4'', ''video/quicktime'', ''video/x-msvideo'']"

text \<open>\<open>name.replace(/\.[^/.]+$/, '')\<close>: the last extension is cut off, when there is one.\<close>

definition strip_extension :: "string \<Rightarrow> string" where
  "strip_extension s =
     (let ext = takeWhile (\<lambda>c. c \<noteq> CHR ''.'' \<and> c \<noteq> CHR ''/'') (rev s)
      in if ext \<noteq> [] \<and> length ext < length s \<and> rev s ! length ext = CHR ''.''
         then take (length s - length ext - 1) s
         else s)"

text \<open>\<open>type.split('/')[1]\<close>: the second piece, \<open>undefined\<close> when there is no slash.\<close>

definition split_slash_second :: "string \<Rightarrow> string option" where
  "split_slash_second s =
     (if CHR ''/'' \<in> set s
      then Some (takeWhile (\<lambda>c. c \<noteq> CHR ''/'') (tl (dropWhile (\<lambda>c. c \<noteq> CHR ''/'') s)))
      else None)"

definition json_of_field :: "string option \<Rightarrow> json" where
  "json_of_field x = (case x of None \<Rightarrow> JNull | Some s \<Rightarrow> JString s)"

text \<open>\<open>colors || '{}'\<close>: an absent or empty field is read as the empty object.\<close>

definition colors_text :: "FormData \<Rightarrow> string" where
  "colors_text form =
     (case fd_colors form of None \<Rightarrow> ''{}'' | Some c \<Rightarrow> if c = [] then ''{}'' else c)"

definition upload_videoId :: "upload_env \<Rightarrow> string" where
  "upload_videoId env =
     ''video_'' @ decimal (ue_now env) @ ''_'' @ take 9 (drop 2 (ue_random36 env))"

definition mockVideo :: "upload_env \<Rightarrow> File \<Rightarrow> FormData \<Rightarrow> json \<Rightarrow> Video" where
  "mockVideo env videoFile form parsed_colors =
     \<lparr> v_id = upload_videoId env,
       v_user_id = ''demo_user'',
       v_title = Some (strip_extension (file_name videoFile)),
       v_original_url = [],
       v_processed_url = Some [],
       v_thumbnail_url = Some [],
       v_status = Processing,
       v_duration = Some 0,
       v_format = split_slash_second (file_type videoFile),
       v_aspect_ratio = Some ''16:9'',
       v_style_config =
         JObject [(''style'', json_of_field (fd_style form)),
                  (''pace'', json_of_field (fd_pace form)),
                  (''colors'', parsed_colors)],
       v_ai_analysis = None,
       v_created_at = ue_iso_created env,
       v_updated_at = ue_iso_updated env \<rparr>"

text \<open>
  The handler. \<open>JSON.parse\<close> is the one call of the body that can throw once the form
  data is read; the \<open>catch\<close> turns its \<open>SyntaxError\<close> into a 500 whose body holds the
  error's message.
\<close>

definition POST :: "upload_env \<Rightarrow> FormData \<Rightarrow> upload_response" where
  "POST env form =
     (case fd_video form of
        None \<Rightarrow> \<lparr> ur_status = 400, ur_body = ErrorBody msg_no_file \<rparr>
      | Some videoFile \<Rightarrow>
          if file_size videoFile > maxSize
            then \<lparr> ur_status = 400, ur_body = ErrorBody msg_too_large \<rparr>
          else if file_type videoFile \<notin> set validTypes
            then \<lparr> ur_status = 400, ur_body = ErrorBody msg_invalid_format \<rparr>
          else
            (case JSON_parse (colors_text form) of
               None \<Rightarrow> \<lparr> ur_status = 500, ur_body = SyntaxErrorBody \<rparr>
             | Some parsed_colors \<Rightarrow>
                 \<lparr> ur_status = 200,
                   ur_body = UploadBody (mockVideo env videoFile form parsed_colors) msg_uploaded \<rparr>))"


section \<open>Status handler (\<open>GET\<close> of the status route)\<close>

text \<open>
  The handler reads no module state: its inputs are the path parameter and what it asks
  of the runtime, a random draw and two clock readings. The draw enters the handler
  only through \<open>Math.random() * 100\<close>, a product of doubles that the runtime rounds to a
  double; \<open>se_random_times_100\<close> is that double. It is not the exact product: for the
  draw nearest to 0.99 the exact product is below 99 and the double is 99. As the draw
  lies in \<open>[0, 1)\<close> the double lies between 0 and 100.

  From the progress on, the handler computes with whole numbers from 1 to 100. For each
  of these hundred values \<open>p\<close> the doubles \<open>(p / 100) * 7\<close> and \<open>(100 - p) * 1.2\<close> have the
  floor and the rounding of the exact values, which is what the definitions below
  take.
\<close>

record status_env =
  se_random_times_100 :: real
  se_iso_created :: string
  se_iso_updated :: string

record status_payload =
  sp_status :: string
  sp_progress :: int
  sp_currentStep :: "string option"
  sp_timeRemaining :: int
  sp_video :: "Video option"

datatype status_body =
    StatusError string
  | StatusPayload status_payload

record status_response =
  sr_status :: nat
  sr_body :: status_body

definition msg_no_video_id :: string where
  "msg_no_video_id =
     ''ID do v'' @ [CHR 0xC3, CHR 0xAD] @ ''deo n'' @ [CHR 0xC3, CHR 0xA3] @ ''o fornecido''"

definition status_steps :: "string list" where
  "status_steps =
     [''Validating video'', ''Extracting audio'', ''Analyzing with AI'',
      ''Generating visual effects'', ''Rendering video'', ''Generating thumbnail'',
      ''Finalizing'']"

definition sample_processed_url :: string where
  "sample_processed_url =
     ''https://commondatastorage.googleapis.com/gtv-videos-bucket/sample/BigBuckBunny.mp4''"

definition sample_thumbnail_url :: string where
  "sample_thumbnail_url =
     ''https://images.unsplash.com/photo-1574717024653-61fd2cf4d44d?w=400&h=300&fit=crop''"

definition mock_suggested_title :: string where
  "mock_suggested_title =
     [CHR 0xF0, CHR 0x9F, CHR 0x94, CHR 0xA5] @ '' V'' @ [CHR 0xC3, CHR 0xAD] @ ''deo Incr''
       @ [CHR 0xC3, CHR 0xAD] @ ''vel que Vai Viralizar!''"

definition mock_suggested_description :: string where
  "mock_suggested_description =
     ''Este v'' @ [CHR 0xC3, CHR 0xAD] @ ''deo foi otimizado pela IA para m''
       @ [CHR 0xC3, CHR 0xA1] @ ''ximo engajamento. Compartilhe agora!''"

definition status_ai_analysis :: json where
  "status_ai_analysis =
     JObject
       [(''virality_score'', JNumber ''0.85''),
        (''suggested_title'', JString mock_suggested_title),
        (''suggested_description'', JString mock_suggested_description),
        (''suggested_hashtags'',
           JArray [JString ''#viral'', JString ''#trending'', JString ''#ai'',
                   JString ''#videoediting'']),
        (''emotion_peaks'', JArray []),
        (''scene_changes'', JArray []),
        (''audio_quality'', JNumber ''0.9''),
        (''visual_quality'', JNumber ''0.95'')]"

definition status_style_config :: json where
  "status_style_config =
     JObject
       [(''style'', JString ''modern''),
        (''pace'', JString ''medium''),
        (''colors'',
           JObject [(''primary'', JString ''#FF6B6B''), (''secondary'', JString ''#4ECDC4''),
                    (''accent'', JString ''#FFE66D'')])]"

definition completed_video :: "string \<Rightarrow> status_env \<Rightarrow> Video" where
  "completed_video videoId env =
     \<lparr> v_id = videoId,
       v_user_id = ''demo_user'',
       v_title = Some (''V'' @ [CHR 0xC3, CHR 0xAD] @ ''deo Processado''),
       v_original_url = [],
       v_processed_url = Some sample_processed_url,
       v_thumbnail_url = Some sample_thumbnail_url,
       v_status = Completed,
       v_duration = Some 120,
       v_format = Some ''mp4'',
       v_aspect_ratio = Some ''16:9'',
       v_style_config = status_style_config,
       v_ai_analysis = Some status_ai_analysis,
       v_created_at = se_iso_created env,
       v_updated_at = se_iso_updated env \<rparr>"

text \<open>\<open>Math.min(100, Math.floor(Math.random() * 100) + 1)\<close>\<close>

definition mockProgress :: "status_env \<Rightarrow> int" where
  "mockProgress env = min 100 (\<lfloor>se_random_times_100 env\<rfloor> + 1)"

text \<open>
  \<open>steps[Math.min(currentStepIndex, steps.length - 1)]\<close>; an index below zero reads
  \<open>undefined\<close>.
\<close>

definition poll_currentStep :: "int \<Rightarrow> string option" where
  "poll_currentStep progress =
     (let currentStepIndex = \<lfloor>(real_of_int progress / 100) * real (length status_steps)\<rfloor>;
          i = min currentStepIndex (int (length status_steps) - 1)
      in if 0 \<le> i then Some (status_steps ! nat i) else None)"

definition poll_timeRemaining :: "int \<Rightarrow> int" where
  "poll_timeRemaining progress = max 0 (Math_round (real_of_int (100 - progress) * 1.2))"

definition GET :: "string \<Rightarrow> status_env \<Rightarrow> status_response" where
  "GET videoId env =
     (if videoId = [] then \<lparr> sr_status = 400, sr_body = StatusError msg_no_video_id \<rparr>
      else if mockProgress env \<ge> 100 then
        \<lparr> sr_status = 200,
          sr_body = StatusPayload
            \<lparr> sp_status = ''completed'', sp_progress = 100, sp_currentStep = Some ''Completed'',
              sp_timeRemaining = 0, sp_video = Some (completed_video videoId env) \<rparr> \<rparr>
      else
        \<lparr> sr_status = 200,
          sr_body = StatusPayload
            \<lparr> sp_status = ''processing'', sp_progress = mockProgress env,
              sp_currentStep = poll_currentStep (mockProgress env),
              sp_timeRemaining = poll_timeRemaining (mockProgress env), sp_video = None \<rparr> \<rparr>)"

text \<open>What a polling client reads off a response.\<close>

definition response_progress :: "status_response \<Rightarrow> int option" where
  "response_progress r =
     (case sr_body r of StatusError m \<Rightarrow> None | StatusPayload p \<Rightarrow> Some (sp_progress p))"

definition response_status :: "status_response \<Rightarrow> string option" where
  "response_status r =
     (case sr_body r of StatusError m \<Rightarrow> None | StatusPayload p \<Rightarrow> Some (sp_status p))"

section \<open>AI analyzer: captions, scene changes and silences\<close>

text \<open>
  Word timestamps are JavaScript numbers, modelled by the reals they denote. The
  detectors subtract, add and divide them, and the runtime rounds each result to a
  double: the difference of the doubles nearest to 1.1 and 0.1 is the double 1, though
  the exact difference of these two doubles is above 1. The three operations are
  therefore taken from the runtime as the parameter \<open>ops\<close>, and the gap of a pair of
  words is the double that \<open>words[i].start - words[i - 1].end\<close> evaluates to.
  Comparisons and \<open>Math.min\<close> of doubles are exact. \<open>toLowerCase\<close> is the runtime's too
  and is a parameter as well.
\<close>

record double_ops =
  d_minus :: "real \<Rightarrow> real \<Rightarrow> real"
  d_plus :: "real \<Rightarrow> real \<Rightarrow> real"
  d_divide :: "real \<Rightarrow> real \<Rightarrow> real"

record TranscriptionWord =
  tw_word :: string
  tw_start :: real
  tw_end :: real
  tw_confidence :: real

record Transcription =
  tr_text :: string
  tr_words :: "TranscriptionWord list"
  tr_language :: string
  tr_duration :: real

record GeneratedCaption =
  gc_text :: string
  gc_start_time :: real
  gc_end_time :: real
  gc_is_highlighted :: bool
  gc_highlight_words :: "string list"

datatype SceneType = Cut | Fade | Dissolve

record SceneChange =
  sc_timestamp :: real
  sc_type :: SceneType
  sc_confidence :: real

record SilencePeriod =
  sil_start :: real
  sil_end :: real
  sil_duration :: real

text \<open>\<open>Array.prototype.join\<close> and, for indices in order, \<open>Array.prototype.slice\<close>.\<close>

fun join :: "string \<Rightarrow> string list \<Rightarrow> string" where
  "join sep [] = []"
| "join sep [x] = x"
| "join sep (x # y # ys) = x @ sep @ join sep (y # ys)"

definition slice :: "nat \<Rightarrow> nat \<Rightarrow> 'a list \<Rightarrow> 'a list" where
  "slice from to xs = take (to - from) (drop from xs)"

definition wordsPerCaption :: nat where
  "wordsPerCaption = 5"

definition caption_of_words ::
  "(string \<Rightarrow> string) \<Rightarrow> string list \<Rightarrow> TranscriptionWord list \<Rightarrow> GeneratedCaption" where
  "caption_of_words toLowerCase viralKeywords captionWords =
     (let text = join '' '' (map tw_word captionWords);
          startTime = tw_start (captionWords ! 0);
          endTime = tw_end (captionWords ! (length captionWords - 1));
          highlightWords =
            map tw_word
              (filter (\<lambda>w. toLowerCase (tw_word w) \<in> set viralKeywords) captionWords)
      in \<lparr> gc_text = text, gc_start_time = startTime, gc_end_time = endTime,
           gc_is_highlighted = (length highlightWords > 0),
           gc_highlight_words = highlightWords \<rparr>)"

function generateCaptions_loop ::
  "(string \<Rightarrow> string) \<Rightarrow> string list \<Rightarrow> TranscriptionWord list \<Rightarrow> nat \<Rightarrow>
   GeneratedCaption list \<Rightarrow> GeneratedCaption list" where
  "generateCaptions_loop toLowerCase viralKeywords words i captions =
     (if i < length words then
        (let captionWords = slice i (i + wordsPerCaption) words
         in if length captionWords = 0
            then generateCaptions_loop toLowerCase viralKeywords words (i + wordsPerCaption) captions
            else generateCaptions_loop toLowerCase viralKeywords words (i + wordsPerCaption)
                   (captions @ [caption_of_words toLowerCase viralKeywords captionWords]))
      else captions)"
  by pat_completeness auto
termination
  by (relation "measure (\<lambda>(toLowerCase, viralKeywords, words, i, captions). length words - i)")
     (auto simp: wordsPerCaption_def)

definition generateCaptions ::
  "(string \<Rightarrow> string) \<Rightarrow> Transcription \<Rightarrow> string list \<Rightarrow> GeneratedCaption list" where
  "generateCaptions toLowerCase transcription viralKeywords =
     generateCaptions_loop toLowerCase viralKeywords (tr_words transcription) 0 []"

definition gap_before :: "double_ops \<Rightarrow> TranscriptionWord list \<Rightarrow> nat \<Rightarrow> real" where
  "gap_before ops words i = d_minus ops (tw_start (words ! i)) (tw_end (words ! (i - 1)))"

definition scene_before :: "double_ops \<Rightarrow> TranscriptionWord list \<Rightarrow> nat \<Rightarrow> SceneChange" where
  "scene_before ops words i =
     (let gap = gap_before ops words i
      in \<lparr> sc_timestamp = d_plus ops (tw_end (words ! (i - 1))) (d_divide ops gap 2),
           sc_type = Fade,
           sc_confidence = min (d_divide ops gap 5) 1 \<rparr>)"

function detectScenes_loop ::
  "double_ops \<Rightarrow> TranscriptionWord list \<Rightarrow> nat \<Rightarrow> SceneChange list \<Rightarrow> SceneChange list" where
  "detectScenes_loop ops words i scenes =
     (if i < length words then
        (if gap_before ops words i > 2.0
         then detectScenes_loop ops words (i + 1) (scenes @ [scene_before ops words i])
         else detectScenes_loop ops words (i + 1) scenes)
      else scenes)"
  by pat_completeness auto
termination
  by (relation "measure (\<lambda>(ops, words, i, scenes). length words - i)") auto

definition detectScenes :: "double_ops \<Rightarrow> Transcription \<Rightarrow> SceneChange list" where
  "detectScenes ops transcription = detectScenes_loop ops (tr_words transcription) 1 []"

definition silence_before :: "double_ops \<Rightarrow> TranscriptionWord list \<Rightarrow> nat \<Rightarrow> SilencePeriod" where
  "silence_before ops words i =
     (let silenceStart = tw_end (words ! (i - 1));
          silenceEnd = tw_start (words ! i);
          duration = d_minus ops silenceEnd silenceStart
      in \<lparr> sil_start = silenceStart, sil_end = silenceEnd, sil_duration = duration \<rparr>)"

function detectSilences_loop ::
  "double_ops \<Rightarrow> TranscriptionWord list \<Rightarrow> nat \<Rightarrow> SilencePeriod list \<Rightarrow> SilencePeriod list" where
  "detectSilences_loop ops words i silences =
     (if i < length words then
        (if sil_duration (silence_before ops words i) > 1.0
         then detectSilences_loop ops words (i + 1) (silences @ [silence_before ops words i])
         else detectSilences_loop ops words (i + 1) silences)
      else silences)"
  by pat_completeness auto
termination
  by (relation "measure (\<lambda>(ops, words, i, silences). length words - i)") auto

definition detectSilences :: "double_ops \<Rightarrow> Transcription \<Rightarrow> SilencePeriod list" where
  "detectSilences ops transcription = detectSilences_loop ops (tr_words transcription) 1 []"

text \<open>
  The grouping the captions are checked against: consecutive chunks of \<open>n\<close> elements,
  the last one holding what is left.
\<close>

function chunks_of :: "nat \<Rightarrow> 'a list \<Rightarrow> 'a list list" where
  "chunks_of n xs = (if xs = [] \<or> n = 0 then [] else take n xs # chunks_of n (drop n xs))"
  by pat_completeness auto
termination
  by (relation "measure (\<lambda>(n, xs). length xs)") auto

section \<open>In-memory queue\<close>

text \<open>
  The module state is \<open>inMemoryQueues\<close>, a record of arrays keyed by the five lane
  names, and \<open>jobStatuses\<close>. Arrays are objects: \<open>push\<close>, \<open>shift\<close> and \<open>splice\<close> change an
  array in place, \<open>clearQueue\<close> stores a new array under the lane's key and \<open>peekQueue\<close>
  hands a new array to its caller. So a lane holds a reference, and \<open>arrays\<close> is the
  store of the arrays by reference; \<open>next_array\<close> is the next unused reference. No
  function of the module changes a job object in place (each change goes through a
  spread copy), so jobs are values. Priorities, retry counts and \<open>maxRetries\<close> are
  numbers, modelled by reals (there is no \<open>NaN\<close>); \<open>Date.now()\<close> is a parameter of the
  functions that read it, and \<open>enqueue\<close> and \<open>enqueuePriority\<close> overwrite the
  \<open>createdAt\<close> of the job they are given with it. Console output is not modelled.

  Of the free-form \<open>data\<close> of a job the two keys the queue itself reads or writes are
  typed: \<open>retryCount\<close>, a number when present, and \<open>error\<close>, a string when present;
  the other entries are kept as they are.
\<close>

datatype QueueName = UPLOAD | PROCESS | RENDER | COMPLETED | FAILED

definition QUEUES :: "QueueName \<Rightarrow> string" where
  "QUEUES queueName =
     (case queueName of
        UPLOAD \<Rightarrow> ''queue:upload''
      | PROCESS \<Rightarrow> ''queue:process''
      | RENDER \<Rightarrow> ''queue:render''
      | COMPLETED \<Rightarrow> ''queue:completed''
      | FAILED \<Rightarrow> ''queue:failed'')"

datatype JobType = UploadJob | ProcessJob | RenderJob

record JobData =
  jd_retryCount :: "real option"
  jd_error :: "string option"
  jd_entries :: "(string \<times> json) list"

record QueueJob =
  qj_id :: string
  qj_type :: JobType
  qj_videoId :: string
  qj_priority :: real
  qj_data :: JobData
  qj_createdAt :: nat

record JobStatusEntry =
  js_progress :: real
  js_currentStep :: "string option"
  js_timeRemaining :: "real option"
  js_totalTime :: "real option"
  js_error :: "string option"

record QueueState =
  inMemoryQueues :: "QueueName \<Rightarrow> nat"
  arrays :: "nat \<Rightarrow> QueueJob list"
  next_array :: nat
  jobStatuses :: "string \<Rightarrow> JobStatusEntry option"

text \<open>The module as loaded: five empty arrays, no status.\<close>

definition initial_queues :: QueueState where
  "initial_queues =
     \<lparr> inMemoryQueues =
         (\<lambda>q. case q of UPLOAD \<Rightarrow> 0 | PROCESS \<Rightarrow> 1 | RENDER \<Rightarrow> 2 | COMPLETED \<Rightarrow> 3 | FAILED \<Rightarrow> 4),
       arrays = (\<lambda>r. []),
       next_array = 5,
       jobStatuses = (\<lambda>jobId. None) \<rparr>"

text \<open>The jobs of a lane, read through its reference.\<close>

definition lane_jobs :: "QueueState \<Rightarrow> QueueName \<Rightarrow> QueueJob list" where
  "lane_jobs st queueName = arrays st (inMemoryQueues st queueName)"

text \<open>
  The shape of the store that every function below preserves: two lanes never share an
  array, and the references in use are below \<open>next_array\<close>.
\<close>

definition store_ok :: "QueueState \<Rightarrow> bool" where
  "store_ok st \<longleftrightarrow>
     inj (inMemoryQueues st) \<and> (\<forall>q. inMemoryQueues st q < next_array st)"

definition enqueue :: "QueueName \<Rightarrow> QueueJob \<Rightarrow> nat \<Rightarrow> QueueState \<Rightarrow> QueueState" where
  "enqueue queueName job now st =
     (let fullJob = job\<lparr> qj_createdAt := now \<rparr>;
          queue = inMemoryQueues st queueName
      in st\<lparr> arrays := (arrays st)(queue := arrays st queue @ [fullJob]) \<rparr>)"

definition dequeue :: "QueueName \<Rightarrow> QueueState \<Rightarrow> QueueJob option \<times> QueueState" where
  "dequeue queueName st =
     (let queue = inMemoryQueues st queueName
      in case arrays st queue of
           [] \<Rightarrow> (None, st)
         | job # rest \<Rightarrow> (Some job, st\<lparr> arrays := (arrays st)(queue := rest) \<rparr>))"

definition getQueueSize :: "QueueName \<Rightarrow> QueueState \<Rightarrow> nat \<times> QueueState" where
  "getQueueSize queueName st = (length (arrays st (inMemoryQueues st queueName)), st)"

definition clearQueue :: "QueueName \<Rightarrow> QueueState \<Rightarrow> QueueState" where
  "clearQueue queueName st =
     st\<lparr> inMemoryQueues := (inMemoryQueues st)(queueName := next_array st),
         arrays := (arrays st)(next_array st := []),
         next_array := next_array st + 1 \<rparr>"

text \<open>
  \<open>[...inMemoryQueues[queue]]\<close>: a new array with the lane's elements; the caller gets
  its reference.
\<close>

definition peekQueue :: "QueueName \<Rightarrow> QueueState \<Rightarrow> nat \<times> QueueState" where
  "peekQueue queueName st =
     (next_array st,
      st\<lparr> arrays := (arrays st)(next_array st := arrays st (inMemoryQueues st queueName)),
          next_array := next_array st + 1 \<rparr>)"

definition setJobStatus :: "string \<Rightarrow> JobStatusEntry \<Rightarrow> QueueState \<Rightarrow> QueueState" where
  "setJobStatus jobId status st = st\<lparr> jobStatuses := (jobStatuses st)(jobId := Some status) \<rparr>"

definition getJobStatus :: "string \<Rightarrow> QueueState \<Rightarrow> JobStatusEntry option \<times> QueueState" where
  "getJobStatus jobId st = (jobStatuses st jobId, st)"

text \<open>\<open>Array.prototype.findIndex\<close>, and \<open>splice(i, 0, x)\<close> for an index within the array.\<close>

fun findIndex :: "('a \<Rightarrow> bool) \<Rightarrow> 'a list \<Rightarrow> int" where
  "findIndex p [] = - 1"
| "findIndex p (x # xs) =
     (if p x then 0 else (if findIndex p xs = - 1 then - 1 else findIndex p xs + 1))"

definition splice_insert :: "nat \<Rightarrow> 'a \<Rightarrow> 'a list \<Rightarrow> 'a list" where
  "splice_insert i x xs = take i xs @ [x] @ drop i xs"

definition enqueuePriority :: "QueueName \<Rightarrow> QueueJob \<Rightarrow> nat \<Rightarrow> QueueState \<Rightarrow> QueueState" where
  "enqueuePriority queueName job now st =
     (let fullJob = job\<lparr> qj_createdAt := now \<rparr>;
          queue = inMemoryQueues st queueName;
          jobs = arrays st queue;
          insertIndex = findIndex (\<lambda>j. qj_priority j < qj_priority job) jobs
      in if insertIndex = - 1
         then st\<lparr> arrays := (arrays st)(queue := jobs @ [fullJob]) \<rparr>
         else st\<lparr> arrays := (arrays st)(queue := splice_insert (nat insertIndex) fullJob jobs) \<rparr>)"

definition dequeuePriority :: "QueueName \<Rightarrow> QueueState \<Rightarrow> QueueJob option \<times> QueueState" where
  "dequeuePriority queueName st = dequeue queueName st"

subsection \<open>The polling loop\<close>










definition getQueueStats :: "QueueState \<Rightarrow> (nat \<times> nat \<times> nat \<times> nat \<times> nat) \<times> QueueState" where
  "getQueueStats st =
     ((fst (getQueueSize UPLOAD st), fst (getQueueSize PROCESS st), fst (getQueueSize RENDER st),
       fst (getQueueSize COMPLETED st), fst (getQueueSize FAILED st)), st)"


text \<open>A job with no data entries, for concrete instances.\<close>

definition plain_job :: "string \<Rightarrow> real \<Rightarrow> QueueJob" where
  "plain_job jobId priority =
     \<lparr> qj_id = jobId, qj_type = ProcessJob, qj_videoId = jobId, qj_priority = priority,
       qj_data = \<lparr> jd_retryCount = None, jd_error = None, jd_entries = [] \<rparr>,
       qj_createdAt = 0 \<rparr>"

section \<open>Command-string builders\<close>

text \<open>
  The builders format strings and read nothing but their parameters. A template
  literal turns a number into text by the runtime's \<open>Number\<close>-to-string conversion,
  which is the parameter \<open>num\<close> of the builders below; a parameter with a default value
  is an option, \<open>None\<close> standing for a left-out argument.
\<close>

datatype VideoStyle = Modern | Minimal | Energetic

datatype VideoPace = Fast | Medium | Intense

record StyleColors =
  col_primary :: string
  col_secondary :: string
  col_accent :: string

record StyleConfig =
  sty_style :: VideoStyle
  sty_pace :: VideoPace
  sty_colors :: StyleColors

datatype CaptionPosition = Top | Center | Bottom

record CaptionStyle =
  cs_fontSize :: real
  cs_fontColor :: string
  cs_backgroundColor :: string
  cs_opacity :: real
  cs_position :: CaptionPosition
  cs_animation :: "string option"

record Caption =
  cap_id :: string
  cap_video_id :: string
  cap_text :: string
  cap_start_time :: real
  cap_end_time :: real
  cap_style :: "CaptionStyle option"
  cap_is_highlighted :: bool
  cap_highlight_words :: "string list option"
  cap_confidence :: "real option"
  cap_created_at :: string

text \<open>
  \<open>s.replace(/c/g, r)\<close> for a single character \<open>c\<close> and a replacement text without
  \<open>$\<close>: every occurrence of the character is replaced.
\<close>

definition replace_all :: "char \<Rightarrow> string \<Rightarrow> string \<Rightarrow> string" where
  "replace_all c r s = concat (map (\<lambda>x. if x = c then r else [x]) s)"

definition or_default :: "'a \<Rightarrow> 'a option \<Rightarrow> 'a" where
  "or_default d x = (case x of None \<Rightarrow> d | Some v \<Rightarrow> v)"

text \<open>\<open>n.toString(16)\<close> for an integer and \<open>padStart(2, '0')\<close>.\<close>

function hex_digits :: "nat \<Rightarrow> string" where
  "hex_digits n =
     (if n < 16 then [''0123456789abcdef'' ! n]
      else hex_digits (n div 16) @ [''0123456789abcdef'' ! (n mod 16)])"
  by pat_completeness auto
termination
  by (relation "measure id") auto

definition toString16 :: "int \<Rightarrow> string" where
  "toString16 i = (if i < 0 then ''-'' @ hex_digits (nat (- i)) else hex_digits (nat i))"

definition padStart2 :: "string \<Rightarrow> string" where
  "padStart2 s = replicate (2 - length s) (CHR ''0'') @ s"

text \<open>The text of a caption as \<open>generateCaptionFilter\<close> escapes it.\<close>

definition escapedText :: "string \<Rightarrow> string" where
  "escapedText text =
     replace_all (CHR '']'') [bs, CHR '']'']
       (replace_all (CHR ''['') [bs, CHR ''['']
         (replace_all (CHR '':'') [bs, CHR '':'']
           (replace_all sq [bs, sq]
             (replace_all bs [bs, bs] text))))"

definition generateCaptionFilter ::
  "(real \<Rightarrow> string) \<Rightarrow> Caption \<Rightarrow> real option \<Rightarrow> real option \<Rightarrow> StyleConfig \<Rightarrow> string" where
  "generateCaptionFilter num caption videoWidth_arg videoHeight_arg style =
     (let videoWidth = or_default 1080 videoWidth_arg;
          videoHeight = or_default 1920 videoHeight_arg;
          captionStyle = cap_style caption;
          fontSize =
            (case captionStyle of
               None \<Rightarrow> 60
             | Some cs \<Rightarrow> if cs_fontSize cs = 0 then 60 else cs_fontSize cs);
          fontColor =
            (if cap_is_highlighted caption then col_accent (sty_colors style)
             else (case captionStyle of
                     None \<Rightarrow> ''#FFFFFF''
                   | Some cs \<Rightarrow> if cs_fontColor cs = [] then ''#FFFFFF'' else cs_fontColor cs));
          bgColor =
            (case captionStyle of
               None \<Rightarrow> ''#000000''
             | Some cs \<Rightarrow>
                 if cs_backgroundColor cs = [] then ''#000000'' else cs_backgroundColor cs);
          opacity =
            (case captionStyle of
               None \<Rightarrow> 0.8
             | Some cs \<Rightarrow> if cs_opacity cs = 0 then 0.8 else cs_opacity cs);
          yPosition = videoHeight - 200;
          bgOpacity = padStart2 (toString16 (Math_round (opacity * 255)));
          bgColorWithAlpha = bgColor @ bgOpacity
      in ''drawtext=fontfile=/usr/share/fonts/truetype/dejavu/DejaVuSans-Bold.ttf:text=''
           @ [sq] @ escapedText (cap_text caption) @ [sq]
           @ '':fontcolor='' @ fontColor
           @ '':fontsize='' @ num fontSize
           @ '':box=1:boxcolor='' @ bgColorWithAlpha
           @ '':boxborderw=10:x=(w-text_w)/2:y='' @ num yPosition
           @ '':enable='' @ [sq] @ ''between(t,'' @ num (cap_start_time caption) @ '',''
           @ num (cap_end_time caption) @ '')'' @ [sq])"

definition applyCaptions ::
  "(real \<Rightarrow> string) \<Rightarrow> string \<Rightarrow> string \<Rightarrow> Caption list \<Rightarrow> StyleConfig \<Rightarrow>
   real option \<Rightarrow> real option \<Rightarrow> string" where
  "applyCaptions num inputPath outputPath captions style videoWidth_arg videoHeight_arg =
     (let videoWidth = or_default 1080 videoWidth_arg;
          videoHeight = or_default 1920 videoHeight_arg;
          captionFilters =
            map (\<lambda>caption. generateCaptionFilter num caption (Some videoWidth) (Some videoHeight) style)
              captions;
          filterComplex = join '','' captionFilters
      in ''ffmpeg -i '' @ [dq] @ inputPath @ [dq] @ '' -vf '' @ [dq] @ filterComplex @ [dq]
           @ '' -c:a copy '' @ [dq] @ outputPath @ [dq])"

text \<open>The title as \<open>generateViralThumbnail\<close> escapes it.\<close>

definition escapedTitle :: "string \<Rightarrow> string" where
  "escapedTitle title =
     replace_all (CHR '':'') [bs, CHR '':'']
       (replace_all sq [bs, sq]
         (replace_all bs [bs, bs] title))"

definition generateViralThumbnail ::
  "(real \<Rightarrow> string) \<Rightarrow> string \<Rightarrow> string \<Rightarrow> real \<Rightarrow> string \<Rightarrow> real option \<Rightarrow> real option \<Rightarrow>
   string" where
  "generateViralThumbnail num inputPath outputPath timestamp title width_arg height_arg =
     (let width = or_default 1280 width_arg;
          height = or_default 720 height_arg
      in ''ffmpeg -i '' @ [dq] @ inputPath @ [dq] @ '' -ss '' @ num timestamp
           @ '' -vframes 1 -vf '' @ [dq] @ ''scale='' @ num width @ '':'' @ num height
           @ '',eq=brightness=0.1:contrast=1.2:saturation=1.3,''
           @ ''drawtext=fontfile=/usr/share/fonts/truetype/dejavu/DejaVuSans-Bold.ttf:text=''
           @ [sq] @ escapedTitle title @ [sq]
           @ '':fontcolor=white:fontsize=80:box=1:boxcolor=black@0.7:boxborderw=20''
           @ '':x=(w-text_w)/2:y=h-150'' @ [dq] @ '' '' @ [dq] @ outputPath @ [dq])"

subsection \<open>The other builders and the editing pipeline\<close>

definition quoted :: "string \<Rightarrow> string" where
  "quoted s = [dq] @ s @ [dq]"

definition extractAudio :: "string \<Rightarrow> string \<Rightarrow> string" where
  "extractAudio inputPath outputPath =
     ''ffmpeg -i '' @ quoted inputPath @ '' -vn -acodec pcm_s16le -ar 44100 -ac 2 ''
       @ quoted outputPath"

definition applyColorGrade :: "(real \<Rightarrow> string) \<Rightarrow> real option \<Rightarrow> real option \<Rightarrow> real option \<Rightarrow> string" where
  "applyColorGrade num brightness_arg contrast_arg saturation_arg =
     ''eq=brightness='' @ num (or_default 0.06 brightness_arg)
       @ '':contrast='' @ num (or_default 1.1 contrast_arg)
       @ '':saturation='' @ num (or_default 1.2 saturation_arg)"

definition applyZoomEffect ::
  "(real \<Rightarrow> string) \<Rightarrow> real \<Rightarrow> real \<Rightarrow> real option \<Rightarrow> real option \<Rightarrow> real option \<Rightarrow> string" where
  "applyZoomEffect num startTime endTime scale_arg centerX_arg centerY_arg =
     (let duration = endTime - startTime
      in ''zoompan=z='' @ [sq] @ ''if(between(t,'' @ num startTime @ '','' @ num endTime @ ''),''
           @ num (or_default 1.2 scale_arg) @ '',1)'' @ [sq] @ '':d='' @ num duration
           @ '':x='' @ [sq] @ ''iw*'' @ num (or_default 0.5 centerX_arg) @ [sq]
           @ '':y='' @ [sq] @ ''ih*'' @ num (or_default 0.5 centerY_arg) @ [sq]
           @ '':s=1080x1920'')"

datatype TransitionType = FadeTransition | DissolveTransition

definition applyTransition ::
  "(real \<Rightarrow> string) \<Rightarrow> real \<Rightarrow> real option \<Rightarrow> TransitionType option \<Rightarrow> string" where
  "applyTransition num startTime duration_arg type_arg =
     (if or_default FadeTransition type_arg = FadeTransition
      then ''fade=t=in:st='' @ num startTime @ '':d='' @ num (or_default 0.5 duration_arg)
      else ''fade=t=in:st='' @ num startTime @ '':d='' @ num (or_default 0.5 duration_arg)
             @ '':alpha=1'')"

definition reduceNoise :: "string \<Rightarrow> string \<Rightarrow> string" where
  "reduceNoise inputPath outputPath =
     ''ffmpeg -i '' @ quoted inputPath @ '' -af '' @ quoted ''highpass=f=200,lowpass=f=3000,afftdn=nf=-25''
       @ '' '' @ quoted outputPath"

definition normalizeAudio :: "string \<Rightarrow> string \<Rightarrow> string" where
  "normalizeAudio inputPath outputPath =
     ''ffmpeg -i '' @ quoted inputPath @ '' -af '' @ quoted ''loudnorm=I=-16:TP=-1.5:LRA=11''
       @ '' '' @ quoted outputPath"

definition cutVideo :: "(real \<Rightarrow> string) \<Rightarrow> string \<Rightarrow> string \<Rightarrow> real \<Rightarrow> real \<Rightarrow> string" where
  "cutVideo num inputPath outputPath startTime endTime =
     (let duration = endTime - startTime
      in ''ffmpeg -i '' @ quoted inputPath @ '' -ss '' @ num startTime @ '' -t '' @ num duration
           @ '' -c copy '' @ quoted outputPath)"

datatype AspectRatio = Ratio_9_16 | Ratio_16_9 | Ratio_1_1

definition convertAspectRatio :: "(real \<Rightarrow> string) \<Rightarrow> string \<Rightarrow> string \<Rightarrow> AspectRatio \<Rightarrow> string" where
  "convertAspectRatio num inputPath outputPath targetRatio =
     (let (width, height) =
            (case targetRatio of
               Ratio_9_16 \<Rightarrow> (1080, 1920)
             | Ratio_16_9 \<Rightarrow> (1920, 1080)
             | Ratio_1_1 \<Rightarrow> (1080, 1080))
      in ''ffmpeg -i '' @ quoted inputPath @ '' -vf ''
           @ quoted (''scale='' @ num width @ '':'' @ num height
                       @ '':force_original_aspect_ratio=decrease,pad='' @ num width @ '':''
                       @ num height @ '':(ow-iw)/2:(oh-ih)/2:black'')
           @ '' -c:a copy '' @ quoted outputPath)"

datatype Quality = Low | MediumQuality | High

definition compressVideo :: "(real \<Rightarrow> string) \<Rightarrow> string \<Rightarrow> string \<Rightarrow> Quality option \<Rightarrow> string" where
  "compressVideo num inputPath outputPath quality_arg =
     (let crf = (case or_default MediumQuality quality_arg of
                   Low \<Rightarrow> 28 | MediumQuality \<Rightarrow> 23 | High \<Rightarrow> 18)
      in ''ffmpeg -i '' @ quoted inputPath @ '' -c:v libx264 -preset medium -crf '' @ num crf
           @ '' -c:a aac -b:a 128k '' @ quoted outputPath)"

datatype EffectType = Zoom | Transition | ColorGrade | Blur | Shake | Glow

text \<open>
  Of the free-form \<open>parameters\<close> of an effect the pipeline reads three keys, numbers
  when present.
\<close>

record EffectParameters =
  ep_scale :: "real option"
  ep_centerX :: "real option"
  ep_centerY :: "real option"

record VisualEffect =
  ve_id :: string
  ve_video_id :: string
  ve_effect_type :: EffectType
  ve_start_time :: real
  ve_end_time :: real
  ve_parameters :: EffectParameters
  ve_priority :: real
  ve_created_at :: string

record PipelineOptions =
  opt_removeNoise :: "bool option"
  opt_normalizeAudio :: "bool option"
  opt_colorGrade :: "bool option"
  opt_videoWidth :: "real option"
  opt_videoHeight :: "real option"

datatype js_error = TypeError

text \<open>\<open>path.replace(/\.[^.]+$/, r)\<close>: the last extension, when there is one, becomes \<open>r\<close>.\<close>

definition replace_extension :: "string \<Rightarrow> string \<Rightarrow> string" where
  "replace_extension path r =
     (let ext = takeWhile (\<lambda>c. c \<noteq> CHR ''.'') (rev path)
      in if ext \<noteq> [] \<and> length ext < length path
         then take (length path - length ext - 1) path @ r
         else path)"

text \<open>\<open>x || d\<close> for a number that may be absent.\<close>

definition number_or :: "real \<Rightarrow> real option \<Rightarrow> real" where
  "number_or d x = (case x of None \<Rightarrow> d | Some v \<Rightarrow> if v = 0 then d else v)"

definition effect_filters :: "(real \<Rightarrow> string) \<Rightarrow> VisualEffect \<Rightarrow> string list" where
  "effect_filters num effect =
     (if ve_effect_type effect = Zoom then
        [applyZoomEffect num (ve_start_time effect) (ve_end_time effect)
           (Some (number_or 1.2 (ep_scale (ve_parameters effect))))
           (Some (number_or 0.5 (ep_centerX (ve_parameters effect))))
           (Some (number_or 0.5 (ep_centerY (ve_parameters effect))))]
      else if ve_effect_type effect = Transition then
        [applyTransition num (ve_start_time effect) (Some 0.5) None]
      else [])"

text \<open>
  Steps 1 and 2 of the pipeline: the commands pushed so far and \<open>stepOutput\<close>. The
  function destructures its options into local constants, one of them named
  \<open>normalizeAudio\<close>; inside the function that name is the boolean of the options and
  hides the builder \<open>normalizeAudio\<close> of the module. The statement
  \<open>commands.push(normalizeAudio(stepOutput || audioPath, normalizedPath))\<close> so calls a
  boolean, which throws a \<open>TypeError\<close>; nothing in the function catches it.
\<close>

definition pipeline_audio ::
  "string \<Rightarrow> bool \<Rightarrow> bool \<Rightarrow> js_error + (string list \<times> string)" where
  "pipeline_audio inputPath removeNoise normalizeAudio_option =
     (if removeNoise \<or> normalizeAudio_option then
        (let audioPath = replace_extension inputPath ''_audio.wav'';
             commands1 = [extractAudio inputPath audioPath];
             denoisedPath = replace_extension inputPath ''_denoised.wav'';
             commands2 = (if removeNoise then commands1 @ [reduceNoise audioPath denoisedPath]
                          else commands1);
             stepOutput2 = (if removeNoise then denoisedPath else [])
         in if normalizeAudio_option then Inl TypeError
            else Inr (commands2, stepOutput2))
      else Inr ([], []))"

definition generateCompleteEditingPipeline ::
  "(real \<Rightarrow> string) \<Rightarrow> string \<Rightarrow> string \<Rightarrow> Caption list \<Rightarrow> VisualEffect list \<Rightarrow> StyleConfig \<Rightarrow>
   PipelineOptions \<Rightarrow> js_error + string list" where
  "generateCompleteEditingPipeline num inputPath outputPath captions effects style options =
     (let removeNoise = or_default True (opt_removeNoise options);
          normalizeAudio_option = or_default True (opt_normalizeAudio options);
          colorGrade = or_default True (opt_colorGrade options);
          videoWidth = or_default 1080 (opt_videoWidth options);
          videoHeight = or_default 1920 (opt_videoHeight options);
          currentInput = inputPath
      in case pipeline_audio inputPath removeNoise normalizeAudio_option of
           Inl e \<Rightarrow> Inl e
         | Inr (commands, stepOutput) \<Rightarrow>
             (let filters =
                    (if colorGrade then [applyColorGrade num (Some 0.06) (Some 1.1) (Some 1.2)] else [])
                      @ concat (map (effect_filters num) effects)
                      @ map (\<lambda>caption.
                               generateCaptionFilter num caption (Some videoWidth) (Some videoHeight) style)
                          captions;
                  filterComplex = join '','' filters;
                  videoWithEffects = replace_extension inputPath ''_effects.mp4'';
                  render =
                    (if stepOutput \<noteq> [] then
                       ''ffmpeg -i '' @ quoted currentInput @ '' -i '' @ quoted stepOutput
                         @ '' -filter_complex '' @ quoted filterComplex
                         @ '' -map 0:v -map 1:a -c:v libx264 -preset medium -crf 23 -c:a aac -b:a 192k ''
                         @ quoted videoWithEffects
                     else
                       ''ffmpeg -i '' @ quoted currentInput @ '' -vf '' @ quoted filterComplex
                         @ '' -c:v libx264 -preset medium -crf 23 -c:a copy '' @ quoted videoWithEffects)
              in Inr (commands @ [render, ''mv '' @ quoted videoWithEffects @ '' '' @ quoted outputPath])))"

section \<open>Video processor (mock pipeline)\<close>

text \<open>
  The module keeps two records of its own, \<open>processingJobs\<close> and \<open>videos\<close>, and uses
  \<open>enqueue\<close> and \<open>setJobStatus\<close> of the queue module, so its state holds the queue's
  state. The clock readings and the random suffix of the job id come in through
  \<open>process_env\<close>. The awaited timers only wait; each step carries its delay, and the
  replay ignores it. No statement of the \<open>try\<close> block of \<open>processVideo\<close> can throw (the
  helpers are the mocks below and the two queue functions), so its \<open>catch\<close> block has no
  case in the model.

  \<open>processVideo\<close> is an \<open>async\<close> function that awaits between its statements, so the
  module states it passes through are visible to the rest of the program. The model
  returns them in order: the state at the end of each iteration of the loop over the
  steps, and last the state in which the function returns.

  The time remaining and the total time are computed with exact arithmetic. On the
  eight steps with the mock duration of 120 seconds, and on clock readings that
  \<open>Date.now()\<close> can return, the double arithmetic of the source rounds to the same whole
  numbers.
\<close>

datatype JobRunStatus = JobRunning | JobCompleted | JobFailed

record ProcessingJobEntry =
  pj_id :: string
  pj_video_id :: string
  pj_status :: JobRunStatus
  pj_progress :: real
  pj_currentStep :: string
  pj_metadata :: "(StyleConfig \<times> nat) option"

record ProcessorState =
  processingJobs :: "string \<Rightarrow> ProcessingJobEntry option"
  videos :: "string \<Rightarrow> Video option"
  queue :: QueueState

record process_env =
  pe_start :: nat
  pe_job_now :: nat
  pe_job_random36 :: string
  pe_end :: nat
  pe_iso_updated :: string
  pe_enqueue_now :: nat

definition STEP_DURATIONS :: "(string \<times> real) list" where
  "STEP_DURATIONS =
     [(''validation'', 3), (''extraction'', 8), (''analysis'', 15), (''effects'', 10),
      (''rendering'', 50), (''thumbnail'', 5), (''upload'', 9)]"

definition stepMap :: "(string \<times> string) list" where
  "stepMap =
     [(''Validating video'', ''validation''), (''Extracting audio'', ''extraction''),
      (''Analyzing with AI'', ''analysis''), (''Generating visual effects'', ''effects''),
      (''Rendering video'', ''rendering''), (''Generating thumbnail'', ''thumbnail''),
      (''Uploading'', ''upload'')]"

text \<open>
  Every value of \<open>stepMap\<close> and the fallback \<open>rendering\<close> are keys of \<open>STEP_DURATIONS\<close>,
  so the duration of the current step is always found.
\<close>

definition calculateTimeRemaining :: "string \<Rightarrow> real \<Rightarrow> real \<Rightarrow> int" where
  "calculateTimeRemaining currentStep stepProgress videoDuration =
     (let currentStepKey = (case map_of stepMap currentStep of None \<Rightarrow> ''rendering'' | Some k \<Rightarrow> k);
          steps = map fst STEP_DURATIONS;
          currentStepIndex = findIndex (\<lambda>k. k = currentStepKey) steps;
          currentStepDuration = (case map_of STEP_DURATIONS currentStepKey of None \<Rightarrow> 0 | Some d \<Rightarrow> d);
          currentStepRemaining = currentStepDuration * (1 - stepProgress / 100);
          futureStepsTime = sum_list (map snd (drop (nat (currentStepIndex + 1)) STEP_DURATIONS));
          durationMultiplier = min (videoDuration / 60) 3;
          totalRemaining = (currentStepRemaining + futureStepsTime) * durationMultiplier
      in max 5 (Math_round totalRemaining))"

definition processVideo_jobId :: "process_env \<Rightarrow> string" where
  "processVideo_jobId env =
     ''job_'' @ decimal (pe_job_now env) @ ''_'' @ take 9 (drop 2 (pe_job_random36 env))"

definition createProcessingJob ::
  "string \<Rightarrow> JobRunStatus \<Rightarrow> (StyleConfig \<times> nat) option \<Rightarrow> process_env \<Rightarrow> ProcessorState \<Rightarrow>
   string \<times> ProcessorState" where
  "createProcessingJob video_id status metadata env ps =
     (let jobId = processVideo_jobId env
      in (jobId,
          ps\<lparr> processingJobs := (processingJobs ps)
                (jobId := Some \<lparr> pj_id = jobId, pj_video_id = video_id, pj_status = status,
                                 pj_progress = 0, pj_currentStep = ''Validating video'',
                                 pj_metadata = metadata \<rparr>) \<rparr>))"

definition updateJobProgress ::
  "string \<Rightarrow> real \<Rightarrow> string \<Rightarrow> JobRunStatus \<Rightarrow> ProcessorState \<Rightarrow> ProcessorState" where
  "updateJobProgress jobId progress currentStep status ps =
     (case processingJobs ps jobId of
        None \<Rightarrow> ps
      | Some j \<Rightarrow>
          ps\<lparr> processingJobs := (processingJobs ps)
                (jobId := Some (j\<lparr> pj_progress := progress, pj_currentStep := currentStep,
                                     pj_status := status \<rparr>)) \<rparr>)"

text \<open>The \<open>updates\<close> of \<open>updateVideoStatus\<close> are the fields its caller spreads over the video.\<close>

definition updateVideoStatus ::
  "string \<Rightarrow> VideoStatus \<Rightarrow> (Video \<Rightarrow> Video) \<Rightarrow> string \<Rightarrow> ProcessorState \<Rightarrow> ProcessorState" where
  "updateVideoStatus videoId status updates iso_now ps =
     (case videos ps videoId of
        None \<Rightarrow> ps
      | Some v \<Rightarrow>
          ps\<lparr> videos := (videos ps)
                (videoId := Some ((updates (v\<lparr> v_status := status \<rparr>))\<lparr> v_updated_at := iso_now \<rparr>)) \<rparr>)"

definition saveAIAnalysis :: "string \<Rightarrow> json \<Rightarrow> ProcessorState \<Rightarrow> ProcessorState" where
  "saveAIAnalysis videoId analysis ps =
     (case videos ps videoId of
        None \<Rightarrow> ps
      | Some v \<Rightarrow> ps\<lparr> videos := (videos ps)(videoId := Some (v\<lparr> v_ai_analysis := Some analysis \<rparr>)) \<rparr>)"

definition mockAnalysis :: json where
  "mockAnalysis =
     JObject
       [(''virality_score'', JNumber ''0.85''),
        (''suggested_title'', JString mock_suggested_title),
        (''suggested_description'', JString mock_suggested_description),
        (''suggested_hashtags'',
           JArray [JString ''#viral'', JString ''#trending'', JString ''#ai'',
                   JString ''#videoediting'']),
        (''emotion_peaks'',
           JArray
             [JObject [(''timestamp'', JNumber ''5''), (''emotion'', JString ''excitement''),
                       (''intensity'', JNumber ''0.9'')],
              JObject [(''timestamp'', JNumber ''15''), (''emotion'', JString ''surprise''),
                       (''intensity'', JNumber ''0.85'')]]),
        (''scene_changes'',
           JArray
             [JObject [(''timestamp'', JNumber ''10''), (''type'', JString ''cut'')],
              JObject [(''timestamp'', JNumber ''20''), (''type'', JString ''transition'')]]),
        (''audio_quality'', JNumber ''0.9''),
        (''visual_quality'', JNumber ''0.95'')]"

record pipeline_step =
  ps_progress :: real
  ps_step :: string
  ps_delay :: nat

definition pipeline_steps :: "pipeline_step list" where
  "pipeline_steps =
     [\<lparr> ps_progress = 5, ps_step = ''Validating video'', ps_delay = 500 \<rparr>,
      \<lparr> ps_progress = 15, ps_step = ''Extracting audio'', ps_delay = 1000 \<rparr>,
      \<lparr> ps_progress = 30, ps_step = ''Analyzing with AI'', ps_delay = 1500 \<rparr>,
      \<lparr> ps_progress = 50, ps_step = ''Generating visual effects'', ps_delay = 1000 \<rparr>,
      \<lparr> ps_progress = 70, ps_step = ''Rendering video'', ps_delay = 2000 \<rparr>,
      \<lparr> ps_progress = 92, ps_step = ''Generating thumbnail'', ps_delay = 500 \<rparr>,
      \<lparr> ps_progress = 95, ps_step = ''Uploading'', ps_delay = 1000 \<rparr>,
      \<lparr> ps_progress = 98, ps_step = ''Finalizing'', ps_delay = 500 \<rparr>]"

definition mockDuration :: real where
  "mockDuration = 120"

text \<open>
  The body of the \<open>for\<close> loop over the steps, and the loop with the state after each of
  its iterations.
\<close>

definition processVideo_step :: "string \<Rightarrow> pipeline_step \<Rightarrow> ProcessorState \<Rightarrow> ProcessorState" where
  "processVideo_step jobId s ps =
     (let timeRemaining = calculateTimeRemaining (ps_step s) (ps_progress s) mockDuration;
          ps1 = updateJobProgress jobId (ps_progress s) (ps_step s) JobRunning ps
      in ps1\<lparr> queue :=
               setJobStatus jobId
                 \<lparr> js_progress = ps_progress s, js_currentStep = Some (ps_step s),
                   js_timeRemaining = Some (real_of_int timeRemaining), js_totalTime = None,
                   js_error = None \<rparr>
                 (queue ps1) \<rparr>)"

fun processVideo_steps ::
  "string \<Rightarrow> pipeline_step list \<Rightarrow> ProcessorState \<Rightarrow> ProcessorState list" where
  "processVideo_steps jobId [] ps = []"
| "processVideo_steps jobId (s # rest) ps =
     (let ps1 = processVideo_step jobId s ps
      in ps1 # processVideo_steps jobId rest ps1)"

definition int_text :: "int \<Rightarrow> string" where
  "int_text i = (if i < 0 then ''-'' @ decimal (nat (- i)) else decimal (nat i))"

text \<open>The statements of \<open>processVideo\<close> after the loop.\<close>

definition processVideo_finish ::
  "string \<Rightarrow> string \<Rightarrow> process_env \<Rightarrow> ProcessorState \<Rightarrow> ProcessorState" where
  "processVideo_finish videoId jobId env ps =
     (let analysis = mockAnalysis;
          ps1 = saveAIAnalysis videoId analysis ps;
          totalTime = Math_round ((real (pe_end env) - real (pe_start env)) / 1000);
          ps2 = updateJobProgress jobId 100 ''Completed'' JobCompleted ps1;
          ps3 = ps2\<lparr> queue :=
                   setJobStatus jobId
                     \<lparr> js_progress = 100, js_currentStep = Some ''Completed'',
                       js_timeRemaining = Some 0, js_totalTime = Some (real_of_int totalTime),
                       js_error = None \<rparr>
                     (queue ps2) \<rparr>;
          ps4 = updateVideoStatus videoId Completed
                  (\<lambda>v. v\<lparr> v_processed_url := Some sample_processed_url,
                           v_thumbnail_url := Some sample_thumbnail_url,
                           v_duration := Some mockDuration,
                           v_ai_analysis := Some analysis \<rparr>)
                  (pe_iso_updated env) ps3
      in ps4\<lparr> queue :=
               enqueue COMPLETED
                 \<lparr> qj_id = jobId, qj_type = ProcessJob, qj_videoId = videoId, qj_priority = 0,
                   qj_data = \<lparr> jd_retryCount = None, jd_error = None,
                               jd_entries = [(''status'', JString ''completed''),
                                             (''totalTime'', JNumber (int_text totalTime))] \<rparr>,
                   qj_createdAt = 0 \<rparr>
                 (pe_enqueue_now env) (queue ps4) \<rparr>)"

definition processVideo ::
  "string \<Rightarrow> string \<Rightarrow> string \<Rightarrow> StyleConfig \<Rightarrow> process_env \<Rightarrow> ProcessorState \<Rightarrow>
   ProcessorState list" where
  "processVideo videoId userId videoPath styleConfig env ps =
     (case createProcessingJob videoId JobRunning (Some (styleConfig, pe_start env)) env ps of
        (jobId, ps1) \<Rightarrow>
          (let states = processVideo_steps jobId pipeline_steps ps1
           in states @ [processVideo_finish videoId jobId env (last (ps1 # states))]))"

section \<open>Verified properties\<close>

subsection \<open>Upload validation\<close>

lemma maxSize_value: "maxSize = 524288000"
  by (simp add: maxSize_def)

lemma JSON_parse_empty_object: "JSON_parse ''{}'' = Some (JObject [])"
  by code_simp

lemma JSON_parse_open_brace: "JSON_parse ''{'' = None"
  by code_simp

text \<open>
  Claim C1, as the handler has it. For a request that carries a video file, the
  response is a 400 exactly when the size is strictly above 500 * 1024 * 1024 bytes or
  the MIME type is outside the allow-list, and a 400 carries an error message. A file
  of at most the limit (so one exactly at it) with an allowed type passes validation:
  the synthesized video record is returned when the \<open>colors\<close> field is absent, empty
  or JSON text, and a 500 is returned when \<open>JSON.parse\<close> rejects that field.
\<close>

theorem POST_validation:
  "fd_video form = Some f \<Longrightarrow>
     (ur_status (POST env form) = 400 \<longleftrightarrow>
        500 * 1024 * 1024 < file_size f \<or>
        file_type f \<notin> {''video/mp4'', ''video/quicktime'', ''video/x-msvideo''}) \<and>
     (ur_status (POST env form) = 400 \<longrightarrow> (\<exists>m. ur_body (POST env form) = ErrorBody m)) \<and>
     (file_size f \<le> 500 * 1024 * 1024 \<and> file_type f \<in> set validTypes \<longrightarrow>
        POST env form =
          (case JSON_parse (colors_text form) of
             None \<Rightarrow> \<lparr> ur_status = 500, ur_body = SyntaxErrorBody \<rparr>
           | Some parsed \<Rightarrow>
               \<lparr> ur_status = 200,
                 ur_body = UploadBody (mockVideo env f form parsed) msg_uploaded \<rparr>))"
  by (auto simp: POST_def maxSize_def validTypes_def split: option.splits)

text \<open>A file of exactly 500 MB, of type \<open>video/mp4\<close>, with no \<open>colors\<close> field.\<close>

theorem POST_validation_witness:
  "ur_status
     (POST \<lparr> ue_now = 17, ue_random36 = ''0.k3j9zq1x7pw'', ue_iso_created = ''t0'',
             ue_iso_updated = ''t1'' \<rparr>
           \<lparr> fd_video = Some \<lparr> file_name = ''clip.mp4'', file_size = 524288000,
                               file_type = ''video/mp4'' \<rparr>,
             fd_style = Some ''modern'', fd_pace = Some ''fast'', fd_colors = None \<rparr>) \<noteq> 400 \<and>
   ur_body
     (POST \<lparr> ue_now = 17, ue_random36 = ''0.k3j9zq1x7pw'', ue_iso_created = ''t0'',
             ue_iso_updated = ''t1'' \<rparr>
           \<lparr> fd_video = Some \<lparr> file_name = ''clip.mp4'', file_size = 524288000,
                               file_type = ''video/mp4'' \<rparr>,
             fd_style = Some ''modern'', fd_pace = Some ''fast'', fd_colors = None \<rparr>) =
     UploadBody
       (mockVideo
          \<lparr> ue_now = 17, ue_random36 = ''0.k3j9zq1x7pw'', ue_iso_created = ''t0'',
            ue_iso_updated = ''t1'' \<rparr>
          \<lparr> file_name = ''clip.mp4'', file_size = 524288000, file_type = ''video/mp4'' \<rparr>
          \<lparr> fd_video = Some \<lparr> file_name = ''clip.mp4'', file_size = 524288000,
                              file_type = ''video/mp4'' \<rparr>,
            fd_style = Some ''modern'', fd_pace = Some ''fast'', fd_colors = None \<rparr>
          (JObject []))
       msg_uploaded"
  using POST_validation
    [of "\<lparr> fd_video = Some \<lparr> file_name = ''clip.mp4'', file_size = 524288000,
                               file_type = ''video/mp4'' \<rparr>,
           fd_style = Some ''modern'', fd_pace = Some ''fast'', fd_colors = None \<rparr>"
        "\<lparr> file_name = ''clip.mp4'', file_size = 524288000, file_type = ''video/mp4'' \<rparr>"
        "\<lparr> ue_now = 17, ue_random36 = ''0.k3j9zq1x7pw'', ue_iso_created = ''t0'',
           ue_iso_updated = ''t1'' \<rparr>"]
  by (simp add: validTypes_def colors_text_def JSON_parse_empty_object)

text \<open>
  The claim as written promises acceptance for every request whose file is at the limit
  and of an allowed type. The same file sent with the \<open>colors\<close> field \<open>{\<close> is answered
  with a 500.
\<close>

theorem POST_at_limit_malformed_colors:
  "POST \<lparr> ue_now = 17, ue_random36 = ''0.k3j9zq1x7pw'', ue_iso_created = ''t0'',
          ue_iso_updated = ''t1'' \<rparr>
        \<lparr> fd_video = Some \<lparr> file_name = ''clip.mp4'', file_size = 524288000,
                            file_type = ''video/mp4'' \<rparr>,
          fd_style = Some ''modern'', fd_pace = Some ''fast'', fd_colors = Some ''{'' \<rparr> =
   \<lparr> ur_status = 500, ur_body = SyntaxErrorBody \<rparr>"
  by (simp add: POST_def maxSize_def validTypes_def colors_text_def JSON_parse_open_brace)

subsection \<open>Status poll\<close>

lemma mockProgress_range:
  "0 \<le> se_random_times_100 env \<Longrightarrow> 1 \<le> mockProgress env \<and> mockProgress env \<le> 100"
  by (simp add: mockProgress_def)

lemma mockProgress_full:
  "mockProgress env = 100 \<longleftrightarrow> 99 \<le> se_random_times_100 env"
proof -
  define f where "f = \<lfloor>se_random_times_100 env\<rfloor>"
  have "min 100 (f + 1) = 100 \<longleftrightarrow> 99 \<le> f"
    by auto
  moreover have "99 \<le> f \<longleftrightarrow> 99 \<le> se_random_times_100 env"
    unfolding f_def using le_floor_iff [of 99 "se_random_times_100 env"] by simp
  ultimately show ?thesis
    unfolding mockProgress_def f_def by simp
qed

lemma poll_currentStep_label:
  assumes "1 \<le> p"
  shows "\<exists>label. poll_currentStep p = Some label \<and> label \<in> set status_steps"
proof -
  define i where "i = min \<lfloor>(real_of_int p / 100) * real (length status_steps)\<rfloor> (int (length status_steps) - 1)"
  have len: "length status_steps = 7"
    by (simp add: status_steps_def)
  have "0 \<le> (real_of_int p / 100) * real (length status_steps)"
    using assms by simp
  then have "0 \<le> \<lfloor>(real_of_int p / 100) * real (length status_steps)\<rfloor>"
    by (simp only: zero_le_floor)
  then have lo: "0 \<le> i" and hi: "nat i < length status_steps"
    by (simp_all add: i_def len)
  have "poll_currentStep p = Some (status_steps ! nat i)"
    using lo by (simp add: poll_currentStep_def i_def Let_def)
  moreover have "status_steps ! nat i \<in> set status_steps"
    using hi by (rule nth_mem)
  ultimately show ?thesis by blast
qed

lemma poll_timeRemaining_nonneg: "0 \<le> poll_timeRemaining p"
  by (simp add: poll_timeRemaining_def)

text \<open>
  Claim C2. A poll with a non-empty video id draws a progress value between 1 and 100
  from what the runtime returns for \<open>Math.random() * 100\<close> alone: \<open>GET\<close> has no state
  argument. The value is one more than the whole part of that double, and it is 100
  exactly when the double is at least 99. The canned completed payload (status
  \<open>completed\<close>, progress 100, the sample processed and thumbnail URLs, the requested id
  as the video's id) is returned exactly when the drawn value reaches 100; any other
  draw gives a processing payload with the drawn progress, a step label of the list and
  a time remaining that is not negative. Two polls of the same video can report 91 and
  then 11, so consecutive polls need not be non-decreasing.
\<close>

theorem GET_status_poll:
  assumes "videoId \<noteq> []" and "0 \<le> se_random_times_100 env"
  shows
    "1 \<le> mockProgress env \<and> mockProgress env \<le> 100 \<and>
     (mockProgress env = 100 \<longleftrightarrow> 99 \<le> se_random_times_100 env) \<and>
     (se_random_times_100 env < 99 \<longrightarrow> mockProgress env = \<lfloor>se_random_times_100 env\<rfloor> + 1) \<and>
     (mockProgress env = 100 \<longrightarrow>
        GET videoId env =
          \<lparr> sr_status = 200,
            sr_body = StatusPayload
              \<lparr> sp_status = ''completed'', sp_progress = 100, sp_currentStep = Some ''Completed'',
                sp_timeRemaining = 0, sp_video = Some (completed_video videoId env) \<rparr> \<rparr> \<and>
        v_id (completed_video videoId env) = videoId \<and>
        v_processed_url (completed_video videoId env) = Some sample_processed_url \<and>
        v_thumbnail_url (completed_video videoId env) = Some sample_thumbnail_url) \<and>
     (mockProgress env \<noteq> 100 \<longrightarrow>
        (\<exists>label.
           GET videoId env =
             \<lparr> sr_status = 200,
               sr_body = StatusPayload
                 \<lparr> sp_status = ''processing'', sp_progress = mockProgress env,
                   sp_currentStep = Some label,
                   sp_timeRemaining = poll_timeRemaining (mockProgress env), sp_video = None \<rparr> \<rparr> \<and>
           label \<in> set status_steps) \<and>
        0 \<le> poll_timeRemaining (mockProgress env)) \<and>
     (response_status (GET videoId env) = Some ''completed'' \<longleftrightarrow> mockProgress env = 100) \<and>
     (\<exists>first second.
        0 \<le> se_random_times_100 first \<and> 0 \<le> se_random_times_100 second \<and>
        response_progress (GET videoId first) = Some 91 \<and>
        response_progress (GET videoId second) = Some 11)"
proof -
  have range: "1 \<le> mockProgress env" "mockProgress env \<le> 100"
    using mockProgress_range [OF assms(2)] by simp_all
  have full: "mockProgress env = 100 \<longleftrightarrow> 99 \<le> se_random_times_100 env"
    by (rule mockProgress_full)
  have below: "se_random_times_100 env < 99 \<longrightarrow> mockProgress env = \<lfloor>se_random_times_100 env\<rfloor> + 1"
  proof
    assume "se_random_times_100 env < 99"
    then have "\<lfloor>se_random_times_100 env\<rfloor> < 99"
      by (simp add: floor_less_iff)
    then show "mockProgress env = \<lfloor>se_random_times_100 env\<rfloor> + 1"
      by (simp add: mockProgress_def)
  qed
  have fin: "mockProgress env = 100 \<longrightarrow>
        GET videoId env =
          \<lparr> sr_status = 200,
            sr_body = StatusPayload
              \<lparr> sp_status = ''completed'', sp_progress = 100, sp_currentStep = Some ''Completed'',
                sp_timeRemaining = 0, sp_video = Some (completed_video videoId env) \<rparr> \<rparr> \<and>
        v_id (completed_video videoId env) = videoId \<and>
        v_processed_url (completed_video videoId env) = Some sample_processed_url \<and>
        v_thumbnail_url (completed_video videoId env) = Some sample_thumbnail_url"
    using assms(1) by (simp add: GET_def completed_video_def)
  have running: "mockProgress env \<noteq> 100 \<longrightarrow>
        (\<exists>label.
           GET videoId env =
             \<lparr> sr_status = 200,
               sr_body = StatusPayload
                 \<lparr> sp_status = ''processing'', sp_progress = mockProgress env,
                   sp_currentStep = Some label,
                   sp_timeRemaining = poll_timeRemaining (mockProgress env), sp_video = None \<rparr> \<rparr> \<and>
           label \<in> set status_steps) \<and>
        0 \<le> poll_timeRemaining (mockProgress env)"
  proof
    assume ne: "mockProgress env \<noteq> 100"
    obtain label where l: "poll_currentStep (mockProgress env) = Some label" "label \<in> set status_steps"
      using poll_currentStep_label [OF range(1)] by blast
    have "GET videoId env =
             \<lparr> sr_status = 200,
               sr_body = StatusPayload
                 \<lparr> sp_status = ''processing'', sp_progress = mockProgress env,
                   sp_currentStep = Some label,
                   sp_timeRemaining = poll_timeRemaining (mockProgress env), sp_video = None \<rparr> \<rparr>"
      using assms(1) ne range(2) l(1) by (simp add: GET_def)
    with l(2) poll_timeRemaining_nonneg show "(\<exists>label.
           GET videoId env =
             \<lparr> sr_status = 200,
               sr_body = StatusPayload
                 \<lparr> sp_status = ''processing'', sp_progress = mockProgress env,
                   sp_currentStep = Some label,
                   sp_timeRemaining = poll_timeRemaining (mockProgress env), sp_video = None \<rparr> \<rparr> \<and>
           label \<in> set status_steps) \<and>
        0 \<le> poll_timeRemaining (mockProgress env)"
      by blast
  qed
  have iff: "response_status (GET videoId env) = Some ''completed'' \<longleftrightarrow> mockProgress env = 100"
    using assms(1) range(2) by (simp add: GET_def response_status_def)
  have "response_progress
          (GET videoId \<lparr> se_random_times_100 = 90, se_iso_created = [], se_iso_updated = [] \<rparr>) =
        Some 91"
    using assms(1) by (simp add: GET_def response_progress_def mockProgress_def)
  moreover have "response_progress
          (GET videoId \<lparr> se_random_times_100 = 10, se_iso_created = [], se_iso_updated = [] \<rparr>) =
        Some 11"
    using assms(1) by (simp add: GET_def response_progress_def mockProgress_def)
  ultimately have drop: "\<exists>first second.
        0 \<le> se_random_times_100 first \<and> 0 \<le> se_random_times_100 second \<and>
        response_progress (GET videoId first) = Some 91 \<and>
        response_progress (GET videoId second) = Some 11"
    by (intro exI [of _ "\<lparr> se_random_times_100 = 90, se_iso_created = [], se_iso_updated = [] \<rparr>"]
              exI [of _ "\<lparr> se_random_times_100 = 10, se_iso_created = [], se_iso_updated = [] \<rparr>"])
       simp
  from range full below fin running iff drop show ?thesis by blast
qed

text \<open>
  The draw 0.5, whose product with 100 is 50: progress 51, fourth step label, 59 seconds
  remaining. The draw nearest to 0.99, for which the runtime returns the product 99:
  progress 100 and the completed payload for the requested id. The draw 0.984375,
  whose product is 98.4375: progress 99, last step label, one second remaining.
\<close>

theorem GET_status_poll_witness:
  "mockProgress \<lparr> se_random_times_100 = 50, se_iso_created = ''t0'', se_iso_updated = ''t1'' \<rparr> = 51 \<and>
   GET ''video_17_k3j9zq1x7''
       \<lparr> se_random_times_100 = 50, se_iso_created = ''t0'', se_iso_updated = ''t1'' \<rparr> =
     \<lparr> sr_status = 200,
       sr_body = StatusPayload
         \<lparr> sp_status = ''processing'', sp_progress = 51,
           sp_currentStep = Some ''Generating visual effects'',
           sp_timeRemaining = 59, sp_video = None \<rparr> \<rparr> \<and>
   mockProgress \<lparr> se_random_times_100 = 99, se_iso_created = ''t0'', se_iso_updated = ''t1'' \<rparr> = 100 \<and>
   GET ''video_17_k3j9zq1x7''
       \<lparr> se_random_times_100 = 99, se_iso_created = ''t0'', se_iso_updated = ''t1'' \<rparr> =
     \<lparr> sr_status = 200,
       sr_body = StatusPayload
         \<lparr> sp_status = ''completed'', sp_progress = 100, sp_currentStep = Some ''Completed'',
           sp_timeRemaining = 0,
           sp_video = Some (completed_video ''video_17_k3j9zq1x7''
                              \<lparr> se_random_times_100 = 99, se_iso_created = ''t0'',
                                se_iso_updated = ''t1'' \<rparr>) \<rparr> \<rparr> \<and>
   mockProgress
     \<lparr> se_random_times_100 = 98 + 7 / 16, se_iso_created = ''t0'', se_iso_updated = ''t1'' \<rparr> = 99 \<and>
   GET ''video_17_k3j9zq1x7''
       \<lparr> se_random_times_100 = 98 + 7 / 16, se_iso_created = ''t0'', se_iso_updated = ''t1'' \<rparr> =
     \<lparr> sr_status = 200,
       sr_body = StatusPayload
         \<lparr> sp_status = ''processing'', sp_progress = 99,
           sp_currentStep = Some ''Finalizing'',
           sp_timeRemaining = 1, sp_video = None \<rparr> \<rparr>"
  using GET_status_poll
    [of "''video_17_k3j9zq1x7''"
        "\<lparr> se_random_times_100 = 50, se_iso_created = ''t0'', se_iso_updated = ''t1'' \<rparr>"]
    GET_status_poll
    [of "''video_17_k3j9zq1x7''"
        "\<lparr> se_random_times_100 = 99, se_iso_created = ''t0'', se_iso_updated = ''t1'' \<rparr>"]
    GET_status_poll
    [of "''video_17_k3j9zq1x7''"
        "\<lparr> se_random_times_100 = 98 + 7 / 16, se_iso_created = ''t0'', se_iso_updated = ''t1'' \<rparr>"]
  by (simp add: mockProgress_def GET_def poll_currentStep_def status_steps_def
        poll_timeRemaining_def Math_round_def Let_def)

subsection \<open>Caption grouping\<close>

declare generateCaptions_loop.simps [simp del]
declare chunks_of.simps [simp del]
declare detectScenes_loop.simps [simp del]
declare detectSilences_loop.simps [simp del]

lemma chunks_of_Nil: "chunks_of n [] = []"
  by (simp add: chunks_of.simps)

lemma chunks_of_step:
  "xs \<noteq> [] \<Longrightarrow> 0 < n \<Longrightarrow> chunks_of n xs = take n xs # chunks_of n (drop n xs)"
  by (subst chunks_of.simps) simp

lemma concat_chunks_of: "0 < n \<Longrightarrow> concat (chunks_of n xs) = xs"
proof (induction n xs rule: chunks_of.induct)
  case (1 n xs)
  then show ?case
    by (cases "xs = []") (simp_all add: chunks_of_Nil chunks_of_step)
qed

lemma chunks_of_lengths:
  "0 < n \<Longrightarrow> c \<in> set (chunks_of n xs) \<Longrightarrow> 1 \<le> length c \<and> length c \<le> n"
proof (induction n xs rule: chunks_of.induct)
  case (1 n xs)
  show ?case
  proof (cases "xs = []")
    case True
    with "1.prems" show ?thesis by (simp add: chunks_of_Nil)
  next
    case False
    with "1.prems" have "c = take n xs \<or> c \<in> set (chunks_of n (drop n xs))"
      by (simp add: chunks_of_step)
    then show ?thesis
    proof
      assume "c = take n xs"
      with False "1.prems"(1) show ?thesis by (cases xs) auto
    next
      assume "c \<in> set (chunks_of n (drop n xs))"
      with "1.IH" False "1.prems"(1) show ?thesis by simp
    qed
  qed
qed

lemma chunks_of_butlast_full:
  "0 < n \<Longrightarrow> c \<in> set (butlast (chunks_of n xs)) \<Longrightarrow> length c = n"
proof (induction n xs rule: chunks_of.induct)
  case (1 n xs)
  show ?case
  proof (cases "xs = []")
    case True
    with "1.prems" show ?thesis by (simp add: chunks_of_Nil)
  next
    case False
    show ?thesis
    proof (cases "chunks_of n (drop n xs) = []")
      case True
      with False "1.prems" show ?thesis by (simp add: chunks_of_step)
    next
      case rest: False
      then have "drop n xs \<noteq> []"
        by (auto simp: chunks_of_Nil)
      then have full: "length (take n xs) = n" by simp
      from False "1.prems" rest
      have "c = take n xs \<or> c \<in> set (butlast (chunks_of n (drop n xs)))"
        by (simp add: chunks_of_step)
      with full "1.IH" False "1.prems"(1) show ?thesis by auto
    qed
  qed
qed

lemma generateCaptions_loop_chunks:
  "generateCaptions_loop lc kw words i acc =
     acc @ map (caption_of_words lc kw) (chunks_of 5 (drop i words))"
proof (induction lc kw words i acc rule: generateCaptions_loop.induct)
  case (1 lc kw words i acc)
  show ?case
  proof (cases "i < length words")
    case False
    then show ?thesis
      by (simp add: generateCaptions_loop.simps [of lc kw words i acc] chunks_of_Nil)
  next
    case True
    then have ne: "drop i words \<noteq> []" by simp
    then have sl: "slice i (i + wordsPerCaption) words \<noteq> []"
      by (simp add: slice_def wordsPerCaption_def)
    have "generateCaptions_loop lc kw words i acc =
            generateCaptions_loop lc kw words (i + wordsPerCaption)
              (acc @ [caption_of_words lc kw (slice i (i + wordsPerCaption) words)])"
      using True sl by (simp add: generateCaptions_loop.simps [of lc kw words i acc] Let_def)
    also have "\<dots> = (acc @ [caption_of_words lc kw (slice i (i + wordsPerCaption) words)]) @
                map (caption_of_words lc kw) (chunks_of 5 (drop (i + wordsPerCaption) words))"
      using True sl by (intro "1.IH"(2)) simp_all
    also have "\<dots> = acc @ map (caption_of_words lc kw) (chunks_of 5 (drop i words))"
      using ne by (simp add: chunks_of_step slice_def wordsPerCaption_def add.commute)
    finally show ?thesis .
  qed
qed

lemma caption_of_words_fields:
  "c \<noteq> [] \<Longrightarrow>
     gc_text (caption_of_words lc kw c) = join '' '' (map tw_word c) \<and>
     gc_start_time (caption_of_words lc kw c) = tw_start (hd c) \<and>
     gc_end_time (caption_of_words lc kw c) = tw_end (last c)"
  by (simp add: caption_of_words_def Let_def hd_conv_nth last_conv_nth)

text \<open>
  Claim C3. \<open>generateCaptions\<close> produces one caption per chunk of the grouping of the
  words into consecutive chunks of five: the chunks put end to end give back the word
  list, every chunk holds between one and five words, every chunk but the last holds
  exactly five, and the caption of a chunk has the chunk's words joined by single spaces
  as its text, the start of the chunk's first word as its \<open>start_time\<close> and the end of
  the chunk's last word as its \<open>end_time\<close>.
\<close>

theorem generateCaptions_chunks:
  "generateCaptions toLowerCase transcription viralKeywords =
     map (caption_of_words toLowerCase viralKeywords) (chunks_of 5 (tr_words transcription)) \<and>
   concat (chunks_of 5 (tr_words transcription)) = tr_words transcription \<and>
   (\<forall>c \<in> set (chunks_of 5 (tr_words transcription)). 1 \<le> length c \<and> length c \<le> 5) \<and>
   (\<forall>c \<in> set (butlast (chunks_of 5 (tr_words transcription))). length c = 5) \<and>
   (\<forall>c \<in> set (chunks_of 5 (tr_words transcription)).
      gc_text (caption_of_words toLowerCase viralKeywords c) = join '' '' (map tw_word c) \<and>
      gc_start_time (caption_of_words toLowerCase viralKeywords c) = tw_start (hd c) \<and>
      gc_end_time (caption_of_words toLowerCase viralKeywords c) = tw_end (last c))"
proof -
  have "\<forall>c \<in> set (chunks_of 5 (tr_words transcription)). c \<noteq> []"
    using chunks_of_lengths [of 5 _ "tr_words transcription"] by fastforce
  then show ?thesis
    using chunks_of_lengths [of 5 _ "tr_words transcription"]
      chunks_of_butlast_full [of 5 _ "tr_words transcription"]
    by (simp add: generateCaptions_def generateCaptions_loop_chunks concat_chunks_of
          caption_of_words_fields)
qed

text \<open>Six words: a full chunk and a chunk of one.\<close>

theorem generateCaptions_chunks_witness:
  "map (\<lambda>c. (gc_text c, gc_start_time c, gc_end_time c))
     (generateCaptions (\<lambda>s. s)
        \<lparr> tr_text = ''a b c d e f'',
          tr_words =
            [\<lparr> tw_word = ''a'', tw_start = 0, tw_end = 1, tw_confidence = 1 \<rparr>,
             \<lparr> tw_word = ''b'', tw_start = 1, tw_end = 2, tw_confidence = 1 \<rparr>,
             \<lparr> tw_word = ''c'', tw_start = 2, tw_end = 3, tw_confidence = 1 \<rparr>,
             \<lparr> tw_word = ''d'', tw_start = 3, tw_end = 4, tw_confidence = 1 \<rparr>,
             \<lparr> tw_word = ''e'', tw_start = 4, tw_end = 5, tw_confidence = 1 \<rparr>,
             \<lparr> tw_word = ''f'', tw_start = 6, tw_end = 7, tw_confidence = 1 \<rparr>],
          tr_language = ''en'', tr_duration = 7 \<rparr>
        [''c'']) =
   [(''a b c d e'', 0, 5), (''f'', 6, 7)]"
  using generateCaptions_chunks
    [of "\<lambda>s. s"
        "\<lparr> tr_text = ''a b c d e f'',
          tr_words =
            [\<lparr> tw_word = ''a'', tw_start = 0, tw_end = 1, tw_confidence = 1 \<rparr>,
             \<lparr> tw_word = ''b'', tw_start = 1, tw_end = 2, tw_confidence = 1 \<rparr>,
             \<lparr> tw_word = ''c'', tw_start = 2, tw_end = 3, tw_confidence = 1 \<rparr>,
             \<lparr> tw_word = ''d'', tw_start = 3, tw_end = 4, tw_confidence = 1 \<rparr>,
             \<lparr> tw_word = ''e'', tw_start = 4, tw_end = 5, tw_confidence = 1 \<rparr>,
             \<lparr> tw_word = ''f'', tw_start = 6, tw_end = 7, tw_confidence = 1 \<rparr>],
          tr_language = ''en'', tr_duration = 7 \<rparr>"
        "[''c'']"]
  by (simp add: chunks_of_step chunks_of_Nil caption_of_words_def Let_def)

subsection \<open>Silence and scene gaps\<close>

lemma silence_before_duration: "sil_duration (silence_before ops words i) = gap_before ops words i"
  by (simp add: silence_before_def gap_before_def Let_def)

lemma detectSilences_loop_filter:
  "detectSilences_loop ops words i acc =
     acc @ map (silence_before ops words)
             (filter (\<lambda>j. 1 < gap_before ops words j) [i..<length words])"
proof (induction ops words i acc rule: detectSilences_loop.induct)
  case (1 ops words i acc)
  show ?case
  proof (cases "i < length words")
    case False
    then show ?thesis
      by (simp add: detectSilences_loop.simps [of ops words i acc])
  next
    case True
    then have upt: "[i..<length words] = i # [i + 1..<length words]"
      by (simp add: upt_conv_Cons)
    show ?thesis
    proof (cases "1 < gap_before ops words i")
      case long: True
      then show ?thesis
        using True "1.IH"(1) upt
        by (simp add: detectSilences_loop.simps [of ops words i acc] silence_before_duration)
    next
      case short: False
      then show ?thesis
        using True "1.IH"(2) upt
        by (simp add: detectSilences_loop.simps [of ops words i acc] silence_before_duration)
    qed
  qed
qed

lemma detectScenes_loop_filter:
  "detectScenes_loop ops words i acc =
     acc @ map (scene_before ops words)
             (filter (\<lambda>j. 2 < gap_before ops words j) [i..<length words])"
proof (induction ops words i acc rule: detectScenes_loop.induct)
  case (1 ops words i acc)
  show ?case
  proof (cases "i < length words")
    case False
    then show ?thesis
      by (simp add: detectScenes_loop.simps [of ops words i acc])
  next
    case True
    then have upt: "[i..<length words] = i # [i + 1..<length words]"
      by (simp add: upt_conv_Cons)
    show ?thesis
    proof (cases "2 < gap_before ops words i")
      case long: True
      then show ?thesis
        using True "1.IH"(1) upt
        by (simp add: detectScenes_loop.simps [of ops words i acc])
    next
      case short: False
      then show ?thesis
        using True "1.IH"(2) upt
        by (simp add: detectScenes_loop.simps [of ops words i acc])
    qed
  qed
qed

text \<open>
  Two pairs with the same silence period have the same boundary timestamps, hence the
  same gap.
\<close>

lemma silence_before_eq_gap:
  "silence_before ops words j = silence_before ops words i \<Longrightarrow>
     gap_before ops words j = gap_before ops words i"
  by (metis silence_before_duration)

text \<open>The words after a pair do not change what is computed for the pair.\<close>

lemma gap_before_take: "j < n \<Longrightarrow> gap_before ops (take n words) j = gap_before ops words j"
  by (simp add: gap_before_def)

lemma silence_before_take:
  "j < n \<Longrightarrow> silence_before ops (take n words) j = silence_before ops words j"
  by (simp add: silence_before_def)

lemma scene_before_take:
  "j < n \<Longrightarrow> scene_before ops (take n words) j = scene_before ops words j"
  by (simp add: scene_before_def gap_before_take)

lemma detectSilences_prefix:
  assumes "n \<le> length words"
  shows "detectSilences ops (transcription\<lparr> tr_words := take n words \<rparr>) =
     map (silence_before ops words) (filter (\<lambda>j. 1 < gap_before ops words j) [1..<n])"
proof -
  have "detectSilences ops (transcription\<lparr> tr_words := take n words \<rparr>) =
      map (silence_before ops (take n words))
        (filter (\<lambda>j. 1 < gap_before ops (take n words) j) [1..<n])"
    using assms by (simp add: detectSilences_def detectSilences_loop_filter)
  also have "filter (\<lambda>j. 1 < gap_before ops (take n words) j) [1..<n] =
      filter (\<lambda>j. 1 < gap_before ops words j) [1..<n]"
    by (rule filter_cong) (simp_all add: gap_before_take)
  also have "map (silence_before ops (take n words))
        (filter (\<lambda>j. 1 < gap_before ops words j) [1..<n]) =
      map (silence_before ops words) (filter (\<lambda>j. 1 < gap_before ops words j) [1..<n])"
    by (rule map_cong) (simp_all add: silence_before_take)
  finally show ?thesis .
qed

lemma detectScenes_prefix:
  assumes "n \<le> length words"
  shows "detectScenes ops (transcription\<lparr> tr_words := take n words \<rparr>) =
     map (scene_before ops words) (filter (\<lambda>j. 2 < gap_before ops words j) [1..<n])"
proof -
  have "detectScenes ops (transcription\<lparr> tr_words := take n words \<rparr>) =
      map (scene_before ops (take n words))
        (filter (\<lambda>j. 2 < gap_before ops (take n words) j) [1..<n])"
    using assms by (simp add: detectScenes_def detectScenes_loop_filter)
  also have "filter (\<lambda>j. 2 < gap_before ops (take n words) j) [1..<n] =
      filter (\<lambda>j. 2 < gap_before ops words j) [1..<n]"
    by (rule filter_cong) (simp_all add: gap_before_take)
  also have "map (scene_before ops (take n words))
        (filter (\<lambda>j. 2 < gap_before ops words j) [1..<n]) =
      map (scene_before ops words) (filter (\<lambda>j. 2 < gap_before ops words j) [1..<n])"
    by (rule map_cong) (simp_all add: scene_before_take)
  finally show ?thesis .
qed

text \<open>
  Claim C4. The gap of a pair of consecutive words is what the subtraction
  \<open>words[i].start - words[i - 1].end\<close> evaluates to. \<open>detectSilences\<close> reports, in order,
  exactly the pairs whose gap is strictly above 1.0 second, and \<open>detectScenes\<close> exactly
  those whose gap is strictly above 2.0 seconds. For every pair of consecutive words:
  with the words up to the pair, each detector returns what it returns without the
  second word of the pair, followed by the report for the pair if its gap exceeds the
  threshold, and by nothing otherwise; the silence period of the pair is in the result
  for all the words if and only if the gap exceeds 1.0, and its scene change is in the
  result if the gap exceeds 2.0; a gap equal to the threshold adds no report.
\<close>

theorem gap_detection_thresholds:
  "detectSilences ops transcription =
     map (silence_before ops (tr_words transcription))
       (filter (\<lambda>i. 1 < gap_before ops (tr_words transcription) i)
          [1..<length (tr_words transcription)]) \<and>
   detectScenes ops transcription =
     map (scene_before ops (tr_words transcription))
       (filter (\<lambda>i. 2 < gap_before ops (tr_words transcription) i)
          [1..<length (tr_words transcription)]) \<and>
   (\<forall>i. 1 \<le> i \<and> i < length (tr_words transcription) \<longrightarrow>
      gap_before ops (tr_words transcription) i =
        d_minus ops (tw_start (tr_words transcription ! i))
          (tw_end (tr_words transcription ! (i - 1))) \<and>
      detectSilences ops (transcription\<lparr> tr_words := take (Suc i) (tr_words transcription) \<rparr>) =
        detectSilences ops (transcription\<lparr> tr_words := take i (tr_words transcription) \<rparr>) @
          (if 1 < gap_before ops (tr_words transcription) i
           then [silence_before ops (tr_words transcription) i] else []) \<and>
      detectScenes ops (transcription\<lparr> tr_words := take (Suc i) (tr_words transcription) \<rparr>) =
        detectScenes ops (transcription\<lparr> tr_words := take i (tr_words transcription) \<rparr>) @
          (if 2 < gap_before ops (tr_words transcription) i
           then [scene_before ops (tr_words transcription) i] else []) \<and>
      (silence_before ops (tr_words transcription) i \<in> set (detectSilences ops transcription)
         \<longleftrightarrow> 1 < gap_before ops (tr_words transcription) i) \<and>
      (2 < gap_before ops (tr_words transcription) i \<longrightarrow>
         scene_before ops (tr_words transcription) i \<in> set (detectScenes ops transcription)) \<and>
      (gap_before ops (tr_words transcription) i = 1 \<longrightarrow>
         silence_before ops (tr_words transcription) i \<notin> set (detectSilences ops transcription) \<and>
         detectSilences ops (transcription\<lparr> tr_words := take (Suc i) (tr_words transcription) \<rparr>) =
           detectSilences ops (transcription\<lparr> tr_words := take i (tr_words transcription) \<rparr>)) \<and>
      (gap_before ops (tr_words transcription) i = 2 \<longrightarrow>
         detectScenes ops (transcription\<lparr> tr_words := take (Suc i) (tr_words transcription) \<rparr>) =
           detectScenes ops (transcription\<lparr> tr_words := take i (tr_words transcription) \<rparr>)))"
proof -
  let ?ws = "tr_words transcription"
  have sil: "detectSilences ops transcription =
     map (silence_before ops ?ws) (filter (\<lambda>i. 1 < gap_before ops ?ws i) [1..<length ?ws])"
    by (simp add: detectSilences_def detectSilences_loop_filter)
  have sce: "detectScenes ops transcription =
     map (scene_before ops ?ws) (filter (\<lambda>i. 2 < gap_before ops ?ws i) [1..<length ?ws])"
    by (simp add: detectScenes_def detectScenes_loop_filter)
  have gap: "gap_before ops ?ws i = d_minus ops (tw_start (?ws ! i)) (tw_end (?ws ! (i - 1)))" for i
    by (simp add: gap_before_def)
  have sil_step: "detectSilences ops (transcription\<lparr> tr_words := take (Suc i) ?ws \<rparr>) =
        detectSilences ops (transcription\<lparr> tr_words := take i ?ws \<rparr>) @
          (if 1 < gap_before ops ?ws i then [silence_before ops ?ws i] else [])"
    if "1 \<le> i" "i < length ?ws" for i
  proof -
    have "[1..<Suc i] = [1..<i] @ [i]"
      using that(1) by simp
    then show ?thesis
      using that(2) by (simp add: detectSilences_prefix)
  qed
  have sce_step: "detectScenes ops (transcription\<lparr> tr_words := take (Suc i) ?ws \<rparr>) =
        detectScenes ops (transcription\<lparr> tr_words := take i ?ws \<rparr>) @
          (if 2 < gap_before ops ?ws i then [scene_before ops ?ws i] else [])"
    if "1 \<le> i" "i < length ?ws" for i
  proof -
    have "[1..<Suc i] = [1..<i] @ [i]"
      using that(1) by simp
    then show ?thesis
      using that(2) by (simp add: detectScenes_prefix)
  qed
  have sil_iff: "silence_before ops ?ws i \<in> set (detectSilences ops transcription) \<longleftrightarrow>
      1 < gap_before ops ?ws i"
    if "1 \<le> i" "i < length ?ws" for i
  proof
    assume "silence_before ops ?ws i \<in> set (detectSilences ops transcription)"
    then obtain j where "1 < gap_before ops ?ws j"
      "silence_before ops ?ws j = silence_before ops ?ws i"
      unfolding sil by auto
    then show "1 < gap_before ops ?ws i"
      using silence_before_eq_gap by metis
  next
    assume "1 < gap_before ops ?ws i"
    with that show "silence_before ops ?ws i \<in> set (detectSilences ops transcription)"
      unfolding sil by auto
  qed
  have sce_in: "scene_before ops ?ws i \<in> set (detectScenes ops transcription)"
    if "1 \<le> i" "i < length ?ws" "2 < gap_before ops ?ws i" for i
    using that unfolding sce by auto
  show ?thesis
    using sil sce gap sil_step sce_step sil_iff sce_in by simp
qed

text \<open>
  Gaps of 1, 1.5, 2 and 2.5 seconds: three silences, one scene change. On these
  timestamps each difference, half, fifth and sum is a double, so the runtime's
  operations return the exact results.
\<close>

theorem gap_detection_thresholds_witness:
  "detectSilences \<lparr> d_minus = (-), d_plus = (+), d_divide = (/) \<rparr>
     \<lparr> tr_text = ''a b c d e'',
       tr_words =
         [\<lparr> tw_word = ''a'', tw_start = 0, tw_end = 1, tw_confidence = 1 \<rparr>,
          \<lparr> tw_word = ''b'', tw_start = 2, tw_end = 3, tw_confidence = 1 \<rparr>,
          \<lparr> tw_word = ''c'', tw_start = 9 / 2, tw_end = 5, tw_confidence = 1 \<rparr>,
          \<lparr> tw_word = ''d'', tw_start = 7, tw_end = 8, tw_confidence = 1 \<rparr>,
          \<lparr> tw_word = ''e'', tw_start = 21 / 2, tw_end = 12, tw_confidence = 1 \<rparr>],
       tr_language = ''en'', tr_duration = 12 \<rparr> =
     [\<lparr> sil_start = 3, sil_end = 9 / 2, sil_duration = 3 / 2 \<rparr>,
      \<lparr> sil_start = 5, sil_end = 7, sil_duration = 2 \<rparr>,
      \<lparr> sil_start = 8, sil_end = 21 / 2, sil_duration = 5 / 2 \<rparr>] \<and>
   detectScenes \<lparr> d_minus = (-), d_plus = (+), d_divide = (/) \<rparr>
     \<lparr> tr_text = ''a b c d e'',
       tr_words =
         [\<lparr> tw_word = ''a'', tw_start = 0, tw_end = 1, tw_confidence = 1 \<rparr>,
          \<lparr> tw_word = ''b'', tw_start = 2, tw_end = 3, tw_confidence = 1 \<rparr>,
          \<lparr> tw_word = ''c'', tw_start = 9 / 2, tw_end = 5, tw_confidence = 1 \<rparr>,
          \<lparr> tw_word = ''d'', tw_start = 7, tw_end = 8, tw_confidence = 1 \<rparr>,
          \<lparr> tw_word = ''e'', tw_start = 21 / 2, tw_end = 12, tw_confidence = 1 \<rparr>],
       tr_language = ''en'', tr_duration = 12 \<rparr> =
     [\<lparr> sc_timestamp = 37 / 4, sc_type = Fade, sc_confidence = 1 / 2 \<rparr>]"
  using gap_detection_thresholds
    [of "\<lparr> d_minus = (-), d_plus = (+), d_divide = (/) \<rparr>"
      "\<lparr> tr_text = ''a b c d e'',
       tr_words =
         [\<lparr> tw_word = ''a'', tw_start = 0, tw_end = 1, tw_confidence = 1 \<rparr>,
          \<lparr> tw_word = ''b'', tw_start = 2, tw_end = 3, tw_confidence = 1 \<rparr>,
          \<lparr> tw_word = ''c'', tw_start = 9 / 2, tw_end = 5, tw_confidence = 1 \<rparr>,
          \<lparr> tw_word = ''d'', tw_start = 7, tw_end = 8, tw_confidence = 1 \<rparr>,
          \<lparr> tw_word = ''e'', tw_start = 21 / 2, tw_end = 12, tw_confidence = 1 \<rparr>],
       tr_language = ''en'', tr_duration = 12 \<rparr>", THEN conjunct1]
    gap_detection_thresholds
    [of "\<lparr> d_minus = (-), d_plus = (+), d_divide = (/) \<rparr>"
      "\<lparr> tr_text = ''a b c d e'',
       tr_words =
         [\<lparr> tw_word = ''a'', tw_start = 0, tw_end = 1, tw_confidence = 1 \<rparr>,
          \<lparr> tw_word = ''b'', tw_start = 2, tw_end = 3, tw_confidence = 1 \<rparr>,
          \<lparr> tw_word = ''c'', tw_start = 9 / 2, tw_end = 5, tw_confidence = 1 \<rparr>,
          \<lparr> tw_word = ''d'', tw_start = 7, tw_end = 8, tw_confidence = 1 \<rparr>,
          \<lparr> tw_word = ''e'', tw_start = 21 / 2, tw_end = 12, tw_confidence = 1 \<rparr>],
       tr_language = ''en'', tr_duration = 12 \<rparr>", THEN conjunct2, THEN conjunct1]
  by (simp add: upt_rec gap_before_def silence_before_def scene_before_def Let_def)

subsection \<open>The store of the queue\<close>

lemma store_ok_initial: "store_ok initial_queues"
proof -
  have "inj (\<lambda>q. case q of UPLOAD \<Rightarrow> 0::nat | PROCESS \<Rightarrow> 1 | RENDER \<Rightarrow> 2 | COMPLETED \<Rightarrow> 3 | FAILED \<Rightarrow> 4)"
    by (rule injI) (simp split: QueueName.splits)
  moreover have "(case q of UPLOAD \<Rightarrow> 0::nat | PROCESS \<Rightarrow> 1 | RENDER \<Rightarrow> 2 | COMPLETED \<Rightarrow> 3 | FAILED \<Rightarrow> 4) < 5" for q
    by (cases q) simp_all
  ultimately show ?thesis
    by (simp add: store_ok_def initial_queues_def)
qed

lemma lane_jobs_initial: "lane_jobs initial_queues q = []"
  by (simp add: lane_jobs_def initial_queues_def)

lemma lane_jobs_update:
  "store_ok st \<Longrightarrow>
     lane_jobs (st\<lparr> arrays := (arrays st)(inMemoryQueues st q := xs) \<rparr>) q' =
       (if q' = q then xs else lane_jobs st q')"
  by (auto simp: lane_jobs_def store_ok_def inj_def)

lemma store_ok_arrays_update: "store_ok (st\<lparr> arrays := a \<rparr>) = store_ok st"
  by (simp add: store_ok_def)

lemma store_ok_enqueue: "store_ok st \<Longrightarrow> store_ok (enqueue q job now st)"
  by (simp add: enqueue_def Let_def store_ok_arrays_update)

lemma lane_jobs_enqueue:
  "store_ok st \<Longrightarrow>
     lane_jobs (enqueue q job now st) q' =
       (if q' = q then lane_jobs st q @ [job\<lparr> qj_createdAt := now \<rparr>] else lane_jobs st q')"
  by (simp add: enqueue_def Let_def lane_jobs_update) (simp add: lane_jobs_def)




subsection \<open>Priority insertion\<close>

lemma findIndex_lower: "- 1 \<le> findIndex p xs"
  by (induction xs) auto

lemma findIndex_not_found: "(findIndex p xs = - 1) = (\<forall>x \<in> set xs. \<not> p x)"
proof (induction xs)
  case Nil
  show ?case by simp
next
  case (Cons x xs)
  have "findIndex p xs + 1 \<noteq> - 1"
    using findIndex_lower [of p xs] by arith
  with Cons show ?case by auto
qed

lemma findIndex_found:
  "\<exists>x \<in> set xs. p x \<Longrightarrow> findIndex p xs = int (length (takeWhile (\<lambda>x. \<not> p x) xs))"
proof (induction xs)
  case Nil
  then show ?case by simp
next
  case (Cons x xs)
  show ?case
  proof (cases "p x")
    case True
    then show ?thesis by simp
  next
    case False
    with Cons.prems have ex: "\<exists>x \<in> set xs. p x" by simp
    then have "findIndex p xs \<noteq> - 1"
      by (simp add: findIndex_not_found)
    with False Cons.IH [OF ex] show ?thesis by simp
  qed
qed

lemma insert_at_findIndex:
  "(if findIndex p xs = - 1 then xs @ [x] else splice_insert (nat (findIndex p xs)) x xs) =
     takeWhile (\<lambda>y. \<not> p y) xs @ x # dropWhile (\<lambda>y. \<not> p y) xs"
proof (cases "\<exists>y \<in> set xs. p y")
  case True
  then have ne: "findIndex p xs \<noteq> - 1"
    by (simp add: findIndex_not_found)
  have "splice_insert (length (takeWhile (\<lambda>y. \<not> p y) xs)) x xs =
          takeWhile (\<lambda>y. \<not> p y) xs @ x # dropWhile (\<lambda>y. \<not> p y) xs"
    by (simp add: splice_insert_def takeWhile_eq_take [symmetric] dropWhile_eq_drop [symmetric])
  with ne findIndex_found [OF True] show ?thesis by simp
next
  case False
  then have fi: "findIndex p xs = - 1"
    by (simp add: findIndex_not_found)
  have tw: "takeWhile (\<lambda>y. \<not> p y) xs = xs"
    using False by simp
  have dw: "dropWhile (\<lambda>y. \<not> p y) xs = []"
    using False by simp
  show ?thesis
    unfolding fi tw dw by simp
qed

lemma enqueuePriority_lanes:
  assumes "store_ok st"
  shows "lane_jobs (enqueuePriority q job now st) q' =
     (if q' = q
      then takeWhile (\<lambda>j. \<not> qj_priority j < qj_priority job) (lane_jobs st q)
             @ job\<lparr> qj_createdAt := now \<rparr>
             # dropWhile (\<lambda>j. \<not> qj_priority j < qj_priority job) (lane_jobs st q)
      else lane_jobs st q')"
proof -
  let ?p = "\<lambda>j. qj_priority j < qj_priority job"
  let ?xs = "arrays st (inMemoryQueues st q)"
  have "enqueuePriority q job now st =
          st\<lparr> arrays := (arrays st)(inMemoryQueues st q :=
                (if findIndex ?p ?xs = - 1 then ?xs @ [job\<lparr> qj_createdAt := now \<rparr>]
                 else splice_insert (nat (findIndex ?p ?xs)) (job\<lparr> qj_createdAt := now \<rparr>) ?xs)) \<rparr>"
    by (simp add: enqueuePriority_def Let_def)
  then show ?thesis
    using assms by (simp only: insert_at_findIndex lane_jobs_update) (simp add: lane_jobs_def)
qed

lemma sorted_insert_before_lower:
  fixes f :: "'a \<Rightarrow> real"
  assumes "sorted_wrt (\<lambda>a b. f b \<le> f a) xs"
  shows "sorted_wrt (\<lambda>a b. f b \<le> f a)
           (takeWhile (\<lambda>y. \<not> f y < f x) xs @ x # dropWhile (\<lambda>y. \<not> f y < f x) xs)"
  using assms
proof (induction xs)
  case Nil
  show ?case by simp
next
  case (Cons y ys)
  show ?case
  proof (cases "f y < f x")
    case True
    with Cons.prems have "\<forall>b \<in> set ys. f b \<le> f x" by fastforce
    with True Cons.prems show ?thesis by simp
  next
    case False
    have "set (takeWhile (\<lambda>y. \<not> f y < f x) ys) \<subseteq> set ys" "set (dropWhile (\<lambda>y. \<not> f y < f x) ys) \<subseteq> set ys"
      by (auto dest: set_takeWhileD set_dropWhileD)
    with False Cons show ?thesis by auto
  qed
qed

lemma store_ok_enqueuePriority: "store_ok st \<Longrightarrow> store_ok (enqueuePriority q job now st)"
  by (simp add: enqueuePriority_def Let_def store_ok_arrays_update)

text \<open>
  Claim C5. On a store in which no two lanes share an array, \<open>enqueuePriority\<close> splits
  the lane at its first job of strictly lower priority than the new job and puts the
  new job, stamped with the clock reading, between the two parts: every job before it
  has a priority that is not lower, the job right after it (when there is one) has a
  strictly lower priority, and when there is none the new job is last. The jobs that
  were in the lane keep their order, the other lanes are as before, and a lane in
  non-increasing priority order stays so.
\<close>

theorem enqueuePriority_before_first_lower:
  assumes "store_ok st"
  shows
    "(\<exists>before after.
        before = takeWhile (\<lambda>j. \<not> qj_priority j < qj_priority job) (lane_jobs st q) \<and>
        after = dropWhile (\<lambda>j. \<not> qj_priority j < qj_priority job) (lane_jobs st q) \<and>
        lane_jobs st q = before @ after \<and>
        lane_jobs (enqueuePriority q job now st) q = before @ job\<lparr> qj_createdAt := now \<rparr> # after \<and>
        (\<forall>j \<in> set before. qj_priority job \<le> qj_priority j) \<and>
        (after \<noteq> [] \<longrightarrow> qj_priority (hd after) < qj_priority job)) \<and>
     (\<forall>other. other \<noteq> q \<longrightarrow> lane_jobs (enqueuePriority q job now st) other = lane_jobs st other) \<and>
     (sorted_wrt (\<lambda>a b. qj_priority b \<le> qj_priority a) (lane_jobs st q) \<longrightarrow>
        sorted_wrt (\<lambda>a b. qj_priority b \<le> qj_priority a)
          (lane_jobs (enqueuePriority q job now st) q))"
proof -
  let ?p = "\<lambda>j. \<not> qj_priority j < qj_priority job"
  have before: "\<forall>j \<in> set (takeWhile ?p (lane_jobs st q)). qj_priority job \<le> qj_priority j"
    by (auto dest: set_takeWhileD)
  have after: "dropWhile ?p (lane_jobs st q) \<noteq> [] \<longrightarrow>
                 qj_priority (hd (dropWhile ?p (lane_jobs st q))) < qj_priority job"
    using hd_dropWhile [of ?p "lane_jobs st q"] by blast
  have sorted: "sorted_wrt (\<lambda>a b. qj_priority b \<le> qj_priority a) (lane_jobs st q) \<longrightarrow>
        sorted_wrt (\<lambda>a b. qj_priority b \<le> qj_priority a)
          (lane_jobs (enqueuePriority q job now st) q)"
    using sorted_insert_before_lower [of qj_priority "lane_jobs st q" "job\<lparr> qj_createdAt := now \<rparr>"]
    by (simp add: enqueuePriority_lanes [OF assms])
  from before after sorted show ?thesis
    by (simp add: enqueuePriority_lanes [OF assms])
qed

text \<open>
  A lane with priorities 5, 3, 3, 1 and a new job of priority 3: it goes behind the two
  jobs of priority 3 and before the job of priority 1.
\<close>

theorem enqueuePriority_before_first_lower_witness:
  "lane_jobs
     (enqueuePriority PROCESS (plain_job ''n'' 3) 50
        (enqueue PROCESS (plain_job ''d'' 1) 40
          (enqueue PROCESS (plain_job ''c'' 3) 30
            (enqueue PROCESS (plain_job ''b'' 3) 20
              (enqueue PROCESS (plain_job ''a'' 5) 10 initial_queues)))))
     PROCESS =
   [(plain_job ''a'' 5)\<lparr> qj_createdAt := 10 \<rparr>, (plain_job ''b'' 3)\<lparr> qj_createdAt := 20 \<rparr>,
    (plain_job ''c'' 3)\<lparr> qj_createdAt := 30 \<rparr>, (plain_job ''n'' 3)\<lparr> qj_createdAt := 50 \<rparr>,
    (plain_job ''d'' 1)\<lparr> qj_createdAt := 40 \<rparr>]"
  using enqueuePriority_before_first_lower
    [of "enqueue PROCESS (plain_job ''d'' 1) 40
          (enqueue PROCESS (plain_job ''c'' 3) 30
            (enqueue PROCESS (plain_job ''b'' 3) 20
              (enqueue PROCESS (plain_job ''a'' 5) 10 initial_queues)))"
        "plain_job ''n'' 3" PROCESS 50]
  by (simp add: store_ok_enqueue store_ok_initial lane_jobs_enqueue lane_jobs_initial plain_job_def)

subsection \<open>Reading a lane\<close>

lemma store_ok_peekQueue: "store_ok st \<Longrightarrow> store_ok (snd (peekQueue q st))"
  by (auto simp: peekQueue_def store_ok_def less_Suc_eq)

lemma peekQueue_fresh:
  "store_ok st \<Longrightarrow> fst (peekQueue q st) \<noteq> inMemoryQueues (snd (peekQueue q st)) lane"
  by (auto simp: peekQueue_def store_ok_def)

text \<open>
  Claim C10. On a store in which the references in use are below \<open>next_array\<close>,
  \<open>getQueueSize\<close> returns the lane's length and the state it was given, and
  \<open>peekQueue\<close> leaves every lane on the array it had, with the jobs it had, and leaves
  the job statuses. The array \<open>peekQueue\<close> returns holds the lane's jobs and is no
  lane's array, so whatever the caller then stores in it, every lane still holds the
  jobs it held before the call.
\<close>

theorem peekQueue_getQueueSize_frame:
  assumes "store_ok st"
  shows
    "getQueueSize q st = (length (lane_jobs st q), st) \<and>
     (\<forall>lane. inMemoryQueues (snd (peekQueue q st)) lane = inMemoryQueues st lane \<and>
             lane_jobs (snd (peekQueue q st)) lane = lane_jobs st lane) \<and>
     jobStatuses (snd (peekQueue q st)) = jobStatuses st \<and>
     arrays (snd (peekQueue q st)) (fst (peekQueue q st)) = lane_jobs st q \<and>
     (\<forall>lane. fst (peekQueue q st) \<noteq> inMemoryQueues (snd (peekQueue q st)) lane) \<and>
     (\<forall>changed lane.
        lane_jobs
          ((snd (peekQueue q st))
             \<lparr> arrays := (arrays (snd (peekQueue q st)))(fst (peekQueue q st) := changed) \<rparr>)
          lane = lane_jobs st lane)"
proof -
  have below: "inMemoryQueues st lane \<noteq> next_array st" for lane
    using assms unfolding store_ok_def by (metis less_irrefl)
  have size: "getQueueSize q st = (length (lane_jobs st q), st)"
    by (simp add: getQueueSize_def lane_jobs_def)
  have lanes: "inMemoryQueues (snd (peekQueue q st)) lane = inMemoryQueues st lane \<and>
               lane_jobs (snd (peekQueue q st)) lane = lane_jobs st lane" for lane
    using below [of lane] by (simp add: peekQueue_def lane_jobs_def)
  have statuses: "jobStatuses (snd (peekQueue q st)) = jobStatuses st"
    by (simp add: peekQueue_def)
  have copy: "arrays (snd (peekQueue q st)) (fst (peekQueue q st)) = lane_jobs st q"
    by (simp add: peekQueue_def lane_jobs_def)
  have fresh: "fst (peekQueue q st) \<noteq> inMemoryQueues (snd (peekQueue q st)) lane" for lane
    using assms by (rule peekQueue_fresh)
  have mutate: "lane_jobs
          ((snd (peekQueue q st))
             \<lparr> arrays := (arrays (snd (peekQueue q st)))(fst (peekQueue q st) := changed) \<rparr>)
          lane = lane_jobs st lane" for changed lane
    using below [of lane] by (simp add: peekQueue_def lane_jobs_def)
  from size lanes statuses copy fresh mutate show ?thesis
    by blast
qed

text \<open>
  One job in the \<open>PROCESS\<close> lane: the peeked array is the array 5, it holds the job, and
  emptying it leaves the job in the lane.
\<close>

theorem peekQueue_getQueueSize_frame_witness:
  "getQueueSize PROCESS (enqueue PROCESS (plain_job ''a'' 1) 10 initial_queues) =
     (1, enqueue PROCESS (plain_job ''a'' 1) 10 initial_queues) \<and>
   fst (peekQueue PROCESS (enqueue PROCESS (plain_job ''a'' 1) 10 initial_queues)) = 5 \<and>
   arrays (snd (peekQueue PROCESS (enqueue PROCESS (plain_job ''a'' 1) 10 initial_queues))) 5 =
     [(plain_job ''a'' 1)\<lparr> qj_createdAt := 10 \<rparr>] \<and>
   lane_jobs
     ((snd (peekQueue PROCESS (enqueue PROCESS (plain_job ''a'' 1) 10 initial_queues)))
        \<lparr> arrays :=
            (arrays (snd (peekQueue PROCESS (enqueue PROCESS (plain_job ''a'' 1) 10 initial_queues))))
              (fst (peekQueue PROCESS (enqueue PROCESS (plain_job ''a'' 1) 10 initial_queues)) := []) \<rparr>)
     PROCESS =
     [(plain_job ''a'' 1)\<lparr> qj_createdAt := 10 \<rparr>]"
proof -
  have ok: "store_ok (enqueue PROCESS (plain_job ''a'' 1) 10 initial_queues)"
    by (simp add: store_ok_enqueue store_ok_initial)
  have nxt: "next_array (enqueue PROCESS (plain_job ''a'' 1) 10 initial_queues) = 5"
    by (simp add: enqueue_def initial_queues_def)
  show ?thesis
    using peekQueue_getQueueSize_frame [OF ok, of PROCESS] nxt
    by (simp add: lane_jobs_enqueue store_ok_initial lane_jobs_initial) (simp add: peekQueue_def)
qed

subsection \<open>Retries of the polling loop\<close>













subsection \<open>Escaping of embedded text\<close>

lemma replace_all_Nil: "replace_all c r [] = []"
  by (simp add: replace_all_def)

lemma replace_all_Cons: "replace_all c r (x # s) = (if x = c then r else [x]) @ replace_all c r s"
  by (simp add: replace_all_def)

lemma replace_all_append: "replace_all c r (s @ t) = replace_all c r s @ replace_all c r t"
  by (simp add: replace_all_def)

lemma escapedText_Nil: "escapedText [] = []"
  by (simp add: escapedText_def replace_all_Nil)

lemma escapedText_Cons:
  "escapedText (x # s) =
     (if x = bs \<or> x = sq \<or> x = CHR '':'' \<or> x = CHR ''['' \<or> x = CHR '']'' then [bs, x] else [x])
       @ escapedText s"
  by (simp add: escapedText_def replace_all_Cons replace_all_append replace_all_Nil bs_def sq_def)

lemma escapedTitle_Nil: "escapedTitle [] = []"
  by (simp add: escapedTitle_def replace_all_Nil)

lemma escapedTitle_Cons:
  "escapedTitle (x # s) =
     (if x = bs \<or> x = sq \<or> x = CHR '':'' then [bs, x] else [x]) @ escapedTitle s"
  by (simp add: escapedTitle_def replace_all_Cons replace_all_append replace_all_Nil bs_def sq_def)

text \<open>
  The five replacements of \<open>generateCaptionFilter\<close> amount to one pass that puts a
  backslash before each backslash, single quote, colon and bracket; the three of
  \<open>generateViralThumbnail\<close> to one pass that does so for backslash, single quote and
  colon only.
\<close>

lemma escapedText_each_char:
  "escapedText s =
     concat (map (\<lambda>x. if x \<in> {bs, sq, CHR '':'', CHR ''['', CHR '']''} then [bs, x] else [x]) s)"
  by (induction s) (simp_all add: escapedText_Nil escapedText_Cons)

lemma escapedTitle_each_char:
  "escapedTitle s =
     concat (map (\<lambda>x. if x \<in> {bs, sq, CHR '':''} then [bs, x] else [x]) s)"
  by (induction s) (simp_all add: escapedTitle_Nil escapedTitle_Cons)

lemma escapedTitle_brackets: "escapedTitle ''[LIVE]'' = ''[LIVE]''"
  by (simp add: escapedTitle_Cons escapedTitle_Nil bs_def sq_def)

lemma escapedText_brackets: "escapedText ''[LIVE]'' = [bs] @ ''[LIVE'' @ [bs] @ '']''"
  by (simp add: escapedText_Cons escapedText_Nil bs_def sq_def)

text \<open>
  Claim C7 asks both builders to put a backslash before every single quote, colon and
  bracket of the embedded text. \<open>generateCaptionFilter\<close> does. \<open>generateViralThumbnail\<close>
  does not escape brackets: for the title \<open>[LIVE]\<close> the command it returns holds
  \<open>text='[LIVE]'\<close>, where the caption escaping of the same text gives \<open>\[LIVE\]\<close>.
\<close>

theorem generateViralThumbnail_leaves_brackets:
  "generateViralThumbnail num ''in.mp4'' ''thumb.jpg'' 1 ''[LIVE]'' None None =
     ''ffmpeg -i '' @ [dq] @ ''in.mp4'' @ [dq] @ '' -ss '' @ num 1
       @ '' -vframes 1 -vf '' @ [dq] @ ''scale='' @ num 1280 @ '':'' @ num 720
       @ '',eq=brightness=0.1:contrast=1.2:saturation=1.3,''
       @ ''drawtext=fontfile=/usr/share/fonts/truetype/dejavu/DejaVuSans-Bold.ttf:text=''
       @ [sq] @ ''[LIVE]'' @ [sq]
       @ '':fontcolor=white:fontsize=80:box=1:boxcolor=black@0.7:boxborderw=20''
       @ '':x=(w-text_w)/2:y=h-150'' @ [dq] @ '' '' @ [dq] @ ''thumb.jpg'' @ [dq] \<and>
   escapedText ''[LIVE]'' = [bs] @ ''[LIVE'' @ [bs] @ '']''"
  by (simp add: generateViralThumbnail_def or_default_def escapedTitle_brackets
        escapedText_brackets)

subsection \<open>Progress recorded by the mock pipeline\<close>

lemma queue_updateJobProgress: "queue (updateJobProgress jobId p s r ps) = queue ps"
  by (simp add: updateJobProgress_def split: option.splits)

lemma processVideo_step_status:
  "jobStatuses (queue (processVideo_step jobId s ps)) jobId =
     Some \<lparr> js_progress = ps_progress s, js_currentStep = Some (ps_step s),
            js_timeRemaining =
              Some (real_of_int (calculateTimeRemaining (ps_step s) (ps_progress s) mockDuration)),
            js_totalTime = None, js_error = None \<rparr>"
  by (simp add: processVideo_step_def Let_def setJobStatus_def)

lemma processVideo_step_job:
  "processingJobs ps jobId = Some j \<Longrightarrow>
     processingJobs (processVideo_step jobId s ps) jobId =
       Some (j\<lparr> pj_progress := ps_progress s, pj_currentStep := ps_step s,
                 pj_status := JobRunning \<rparr>)"
  by (simp add: processVideo_step_def Let_def updateJobProgress_def)

lemma processVideo_steps_length: "length (processVideo_steps jobId steps ps) = length steps"
  by (induction steps arbitrary: ps) (simp_all add: Let_def)

text \<open>
  The statuses and the job entries in the states of the loop are those of the steps, in
  the order of the steps.
\<close>

lemma processVideo_steps_statuses:
  "map (\<lambda>st. map_option (\<lambda>e. (js_progress e, js_currentStep e)) (jobStatuses (queue st) jobId))
     (processVideo_steps jobId steps ps) =
   map (\<lambda>s. Some (ps_progress s, Some (ps_step s))) steps"
  by (induction steps arbitrary: ps) (simp_all add: Let_def processVideo_step_status)

lemma processVideo_steps_jobs:
  "processingJobs ps jobId = Some j \<Longrightarrow>
     map (\<lambda>st. map_option (\<lambda>e. (pj_progress e, pj_currentStep e, pj_status e))
                  (processingJobs st jobId))
       (processVideo_steps jobId steps ps) =
     map (\<lambda>s. Some (ps_progress s, ps_step s, JobRunning)) steps"
proof (induction steps arbitrary: ps j)
  case Nil
  show ?case by simp
next
  case (Cons s rest)
  from Cons.prems have step: "processingJobs (processVideo_step jobId s ps) jobId =
       Some (j\<lparr> pj_progress := ps_progress s, pj_currentStep := ps_step s,
                 pj_status := JobRunning \<rparr>)"
    by (rule processVideo_step_job)
  from Cons.IH [OF step] step show ?case
    by (simp add: Let_def)
qed

lemma processVideo_steps_last_job:
  "processingJobs ps jobId = Some j \<Longrightarrow>
     \<exists>j'. processingJobs (last (ps # processVideo_steps jobId steps ps)) jobId = Some j'"
proof (induction steps arbitrary: ps j)
  case Nil
  then show ?case by simp
next
  case (Cons s rest)
  from Cons.prems have "processingJobs (processVideo_step jobId s ps) jobId =
       Some (j\<lparr> pj_progress := ps_progress s, pj_currentStep := ps_step s,
                 pj_status := JobRunning \<rparr>)"
    by (rule processVideo_step_job)
  from Cons.IH [OF this] show ?case
    by (simp add: Let_def)
qed

lemma createProcessingJob_job:
  "\<exists>j. processingJobs (snd (createProcessingJob videoId r m env ps)) (processVideo_jobId env) = Some j"
  by (simp add: createProcessingJob_def Let_def)

lemma processVideo_finish_status:
  "jobStatuses (queue (processVideo_finish videoId jobId env ps)) jobId =
     Some \<lparr> js_progress = 100, js_currentStep = Some ''Completed'', js_timeRemaining = Some 0,
            js_totalTime =
              Some (real_of_int (Math_round ((real (pe_end env) - real (pe_start env)) / 1000))),
            js_error = None \<rparr>"
  by (simp add: processVideo_finish_def Let_def setJobStatus_def enqueue_def updateVideoStatus_def
        queue_updateJobProgress split: option.splits)

lemma processVideo_finish_job:
  "processingJobs ps jobId = Some j \<Longrightarrow>
     processingJobs (processVideo_finish videoId jobId env ps) jobId =
       Some (j\<lparr> pj_progress := 100, pj_currentStep := ''Completed'', pj_status := JobCompleted \<rparr>)"
  by (simp add: processVideo_finish_def Let_def updateJobProgress_def updateVideoStatus_def
        saveAIAnalysis_def split: option.splits)

lemma pipeline_steps_progress:
  "map (\<lambda>s. Some (ps_progress s, Some (ps_step s))) pipeline_steps =
     map Some
       [(5, Some ''Validating video''), (15, Some ''Extracting audio''),
        (30, Some ''Analyzing with AI''), (50, Some ''Generating visual effects''),
        (70, Some ''Rendering video''), (92, Some ''Generating thumbnail''),
        (95, Some ''Uploading''), (98, Some ''Finalizing'')]"
  by (simp add: pipeline_steps_def)

lemma pipeline_steps_jobs:
  "map (\<lambda>s. Some (ps_progress s, ps_step s, JobRunning)) pipeline_steps =
     map Some
       [(5, ''Validating video'', JobRunning), (15, ''Extracting audio'', JobRunning),
        (30, ''Analyzing with AI'', JobRunning), (50, ''Generating visual effects'', JobRunning),
        (70, ''Rendering video'', JobRunning), (92, ''Generating thumbnail'', JobRunning),
        (95, ''Uploading'', JobRunning), (98, ''Finalizing'', JobRunning)]"
  by (simp add: pipeline_steps_def)

text \<open>
  Claim C9. \<open>processVideo\<close> creates its job (with progress 0, written by
  \<open>createProcessingJob\<close>), runs the eight steps and finishes; no path of it fails. The
  states at the end of the steps and at the return hold for the job, in this order, the
  progress values 5, 15, 30, 50, 70, 92, 95, 98 and then 100, both in the status
  written by \<open>setJobStatus\<close> and in the job entry written by \<open>updateJobProgress\<close>, each
  with the label of its step. The state in which \<open>processVideo\<close> returns has for the job
  a status with progress 100, step \<open>Completed\<close> and \<open>timeRemaining\<close> 0, and a job entry
  with progress 100, step \<open>Completed\<close> and status completed. The recorded values
  increase strictly and end at 100.
\<close>

theorem processVideo_progress_sequence:
  "map (\<lambda>st. map_option (\<lambda>e. (js_progress e, js_currentStep e))
                (jobStatuses (queue st) (processVideo_jobId env)))
     (processVideo videoId userId videoPath styleConfig env ps) =
     map Some
       [(5, Some ''Validating video''), (15, Some ''Extracting audio''),
        (30, Some ''Analyzing with AI''), (50, Some ''Generating visual effects''),
        (70, Some ''Rendering video''), (92, Some ''Generating thumbnail''),
        (95, Some ''Uploading''), (98, Some ''Finalizing''), (100, Some ''Completed'')] \<and>
   map (\<lambda>st. map_option (\<lambda>e. (pj_progress e, pj_currentStep e, pj_status e))
                (processingJobs st (processVideo_jobId env)))
     (processVideo videoId userId videoPath styleConfig env ps) =
     map Some
       [(5, ''Validating video'', JobRunning), (15, ''Extracting audio'', JobRunning),
        (30, ''Analyzing with AI'', JobRunning), (50, ''Generating visual effects'', JobRunning),
        (70, ''Rendering video'', JobRunning), (92, ''Generating thumbnail'', JobRunning),
        (95, ''Uploading'', JobRunning), (98, ''Finalizing'', JobRunning),
        (100, ''Completed'', JobCompleted)] \<and>
   jobStatuses (queue (last (processVideo videoId userId videoPath styleConfig env ps)))
     (processVideo_jobId env) =
     Some \<lparr> js_progress = 100, js_currentStep = Some ''Completed'', js_timeRemaining = Some 0,
            js_totalTime =
              Some (real_of_int (Math_round ((real (pe_end env) - real (pe_start env)) / 1000))),
            js_error = None \<rparr> \<and>
   (\<exists>recorded.
      map (\<lambda>st. map_option js_progress (jobStatuses (queue st) (processVideo_jobId env)))
        (processVideo videoId userId videoPath styleConfig env ps) = map Some recorded \<and>
      map (\<lambda>st. map_option pj_progress (processingJobs st (processVideo_jobId env)))
        (processVideo videoId userId videoPath styleConfig env ps) = map Some recorded \<and>
      recorded = [5, 15, 30, 50, 70, 92, 95, 98, 100] \<and>
      sorted_wrt (<) recorded \<and> last recorded = 100)"
proof -
  let ?jobId = "processVideo_jobId env"
  let ?ps1 = "snd (createProcessingJob videoId JobRunning (Some (styleConfig, pe_start env)) env ps)"
  let ?states = "processVideo_steps ?jobId pipeline_steps ?ps1"
  define final where "final = processVideo_finish videoId ?jobId env (last (?ps1 # ?states))"
  have run: "processVideo videoId userId videoPath styleConfig env ps = ?states @ [final]"
    by (simp add: final_def processVideo_def createProcessingJob_def Let_def processVideo_jobId_def)
  obtain j where created: "processingJobs ?ps1 ?jobId = Some j"
    using createProcessingJob_job by blast
  obtain j' where before: "processingJobs (last (?ps1 # ?states)) ?jobId = Some j'"
    using processVideo_steps_last_job [OF created] by blast
  have final_status: "jobStatuses (queue final) ?jobId =
     Some \<lparr> js_progress = 100, js_currentStep = Some ''Completed'', js_timeRemaining = Some 0,
            js_totalTime =
              Some (real_of_int (Math_round ((real (pe_end env) - real (pe_start env)) / 1000))),
            js_error = None \<rparr>"
    unfolding final_def by (rule processVideo_finish_status)
  have final_job: "processingJobs final ?jobId =
      Some (j'\<lparr> pj_progress := 100, pj_currentStep := ''Completed'', pj_status := JobCompleted \<rparr>)"
    unfolding final_def using before by (rule processVideo_finish_job)
  have statuses: "map (\<lambda>st. map_option (\<lambda>e. (js_progress e, js_currentStep e))
                (jobStatuses (queue st) ?jobId))
     (processVideo videoId userId videoPath styleConfig env ps) =
     map Some
       [(5, Some ''Validating video''), (15, Some ''Extracting audio''),
        (30, Some ''Analyzing with AI''), (50, Some ''Generating visual effects''),
        (70, Some ''Rendering video''), (92, Some ''Generating thumbnail''),
        (95, Some ''Uploading''), (98, Some ''Finalizing''), (100, Some ''Completed'')]"
    unfolding run
    by (simp only: map_append processVideo_steps_statuses pipeline_steps_progress)
       (simp add: final_status)
  have jobs: "map (\<lambda>st. map_option (\<lambda>e. (pj_progress e, pj_currentStep e, pj_status e))
                (processingJobs st ?jobId))
     (processVideo videoId userId videoPath styleConfig env ps) =
     map Some
       [(5, ''Validating video'', JobRunning), (15, ''Extracting audio'', JobRunning),
        (30, ''Analyzing with AI'', JobRunning), (50, ''Generating visual effects'', JobRunning),
        (70, ''Rendering video'', JobRunning), (92, ''Generating thumbnail'', JobRunning),
        (95, ''Uploading'', JobRunning), (98, ''Finalizing'', JobRunning),
        (100, ''Completed'', JobCompleted)]"
    unfolding run
    by (simp only: map_append processVideo_steps_jobs [OF created] pipeline_steps_jobs)
       (simp add: final_job)
  have last_status: "jobStatuses (queue (last (processVideo videoId userId videoPath styleConfig env ps)))
     ?jobId =
     Some \<lparr> js_progress = 100, js_currentStep = Some ''Completed'', js_timeRemaining = Some 0,
            js_totalTime =
              Some (real_of_int (Math_round ((real (pe_end env) - real (pe_start env)) / 1000))),
            js_error = None \<rparr>"
    unfolding run by (simp only: last_snoc final_status)
  have "map (\<lambda>st. map_option js_progress (jobStatuses (queue st) ?jobId))
        (processVideo videoId userId videoPath styleConfig env ps) =
      map (map_option fst)
        (map (\<lambda>st. map_option (\<lambda>e. (js_progress e, js_currentStep e))
                (jobStatuses (queue st) ?jobId))
           (processVideo videoId userId videoPath styleConfig env ps))"
    by (simp add: option.map_comp comp_def)
  then have status_values: "map (\<lambda>st. map_option js_progress (jobStatuses (queue st) ?jobId))
        (processVideo videoId userId videoPath styleConfig env ps) =
      map Some [5, 15, 30, 50, 70, 92, 95, 98, 100]"
    by (simp only: statuses) simp
  have "map (\<lambda>st. map_option pj_progress (processingJobs st ?jobId))
        (processVideo videoId userId videoPath styleConfig env ps) =
      map (map_option fst)
        (map (\<lambda>st. map_option (\<lambda>e. (pj_progress e, pj_currentStep e, pj_status e))
                (processingJobs st ?jobId))
           (processVideo videoId userId videoPath styleConfig env ps))"
    by (simp add: option.map_comp comp_def)
  then have job_values: "map (\<lambda>st. map_option pj_progress (processingJobs st ?jobId))
        (processVideo videoId userId videoPath styleConfig env ps) =
      map Some [5, 15, 30, 50, 70, 92, 95, 98, 100]"
    by (simp only: jobs) simp
  have increasing: "sorted_wrt (<) [5, 15, 30, 50, 70, 92, 95, 98, 100 :: real]"
    "last [5, 15, 30, 50, 70, 92, 95, 98, 100 :: real] = 100"
    by simp_all
  from status_values job_values increasing
  have increasing_values: "\<exists>recorded.
      map (\<lambda>st. map_option js_progress (jobStatuses (queue st) ?jobId))
        (processVideo videoId userId videoPath styleConfig env ps) = map Some recorded \<and>
      map (\<lambda>st. map_option pj_progress (processingJobs st ?jobId))
        (processVideo videoId userId videoPath styleConfig env ps) = map Some recorded \<and>
      recorded = [5, 15, 30, 50, 70, 92, 95, 98, 100] \<and>
      sorted_wrt (<) recorded \<and> last recorded = 100"
    by blast
  from statuses jobs last_status increasing_values show ?thesis
    by (intro conjI)
qed

text \<open>
  A run that starts at clock reading 1000 and ends at 9000 on the module as loaded: the
  job \<open>job_2000_k3j9zq1x7\<close> goes through 5, 15, 30, 50, 70, 92, 95, 98, 100 and ends with
  a total time of 8 seconds.
\<close>

theorem processVideo_progress_sequence_witness:
  "jobStatuses
     (queue
        (last
           (processVideo ''v1'' ''u1'' ''/tmp/v1.mp4''
              \<lparr> sty_style = Modern, sty_pace = Fast,
                sty_colors = \<lparr> col_primary = ''#FF6B6B'', col_secondary = ''#4ECDC4'',
                               col_accent = ''#FFE66D'' \<rparr> \<rparr>
              \<lparr> pe_start = 1000, pe_job_now = 2000, pe_job_random36 = ''0.k3j9zq1x7pw'',
                pe_end = 9000, pe_iso_updated = ''t1'', pe_enqueue_now = 9001 \<rparr>
              \<lparr> processingJobs = (\<lambda>jobId. None), videos = (\<lambda>videoId. None),
                queue = initial_queues \<rparr>)))
     ''job_2000_k3j9zq1x7'' =
   Some \<lparr> js_progress = 100, js_currentStep = Some ''Completed'', js_timeRemaining = Some 0,
          js_totalTime = Some 8, js_error = None \<rparr> \<and>
   map (\<lambda>st. map_option js_progress (jobStatuses (queue st) ''job_2000_k3j9zq1x7''))
     (processVideo ''v1'' ''u1'' ''/tmp/v1.mp4''
        \<lparr> sty_style = Modern, sty_pace = Fast,
          sty_colors = \<lparr> col_primary = ''#FF6B6B'', col_secondary = ''#4ECDC4'',
                         col_accent = ''#FFE66D'' \<rparr> \<rparr>
        \<lparr> pe_start = 1000, pe_job_now = 2000, pe_job_random36 = ''0.k3j9zq1x7pw'',
          pe_end = 9000, pe_iso_updated = ''t1'', pe_enqueue_now = 9001 \<rparr>
        \<lparr> processingJobs = (\<lambda>jobId. None), videos = (\<lambda>videoId. None),
          queue = initial_queues \<rparr>) =
   [Some 5, Some 15, Some 30, Some 50, Some 70, Some 92, Some 95, Some 98, Some 100]"
proof -
  have jobId: "processVideo_jobId
      \<lparr> pe_start = 1000, pe_job_now = 2000, pe_job_random36 = ''0.k3j9zq1x7pw'',
        pe_end = 9000, pe_iso_updated = ''t1'', pe_enqueue_now = 9001 \<rparr> = ''job_2000_k3j9zq1x7''"
    by code_simp
  note run = processVideo_progress_sequence
      [of "\<lparr> pe_start = 1000, pe_job_now = 2000, pe_job_random36 = ''0.k3j9zq1x7pw'',
             pe_end = 9000, pe_iso_updated = ''t1'', pe_enqueue_now = 9001 \<rparr>"
          "''v1''" "''u1''" "''/tmp/v1.mp4''"
          "\<lparr> sty_style = Modern, sty_pace = Fast,
             sty_colors = \<lparr> col_primary = ''#FF6B6B'', col_secondary = ''#4ECDC4'',
                            col_accent = ''#FFE66D'' \<rparr> \<rparr>"
          "\<lparr> processingJobs = (\<lambda>jobId. None), videos = (\<lambda>videoId. None),
             queue = initial_queues \<rparr>", unfolded jobId]
  from run [THEN conjunct2, THEN conjunct2, THEN conjunct1]
  have final: "jobStatuses
     (queue
        (last
           (processVideo ''v1'' ''u1'' ''/tmp/v1.mp4''
              \<lparr> sty_style = Modern, sty_pace = Fast,
                sty_colors = \<lparr> col_primary = ''#FF6B6B'', col_secondary = ''#4ECDC4'',
                               col_accent = ''#FFE66D'' \<rparr> \<rparr>
              \<lparr> pe_start = 1000, pe_job_now = 2000, pe_job_random36 = ''0.k3j9zq1x7pw'',
                pe_end = 9000, pe_iso_updated = ''t1'', pe_enqueue_now = 9001 \<rparr>
              \<lparr> processingJobs = (\<lambda>jobId. None), videos = (\<lambda>videoId. None),
                queue = initial_queues \<rparr>)))
     ''job_2000_k3j9zq1x7'' =
   Some \<lparr> js_progress = 100, js_currentStep = Some ''Completed'', js_timeRemaining = Some 0,
          js_totalTime = Some 8, js_error = None \<rparr>"
    by (simp add: Math_round_def)
  from run [THEN conjunct2, THEN conjunct2, THEN conjunct2]
  have recorded: "map (\<lambda>st. map_option js_progress (jobStatuses (queue st) ''job_2000_k3j9zq1x7''))
     (processVideo ''v1'' ''u1'' ''/tmp/v1.mp4''
        \<lparr> sty_style = Modern, sty_pace = Fast,
          sty_colors = \<lparr> col_primary = ''#FF6B6B'', col_secondary = ''#4ECDC4'',
                         col_accent = ''#FFE66D'' \<rparr> \<rparr>
        \<lparr> pe_start = 1000, pe_job_now = 2000, pe_job_random36 = ''0.k3j9zq1x7pw'',
          pe_end = 9000, pe_iso_updated = ''t1'', pe_enqueue_now = 9001 \<rparr>
        \<lparr> processingJobs = (\<lambda>jobId. None), videos = (\<lambda>videoId. None),
          queue = initial_queues \<rparr>) =
   [Some 5, Some 15, Some 30, Some 50, Some 70, Some 92, Some 95, Some 98, Some 100]"
    by auto
  from final recorded show ?thesis by (rule conjI)
qed

subsection \<open>What the editing pipeline returns\<close>

lemma pipeline_audio_off:
  "\<exists>commands stepOutput. pipeline_audio inputPath removeNoise False = Inr (commands, stepOutput)"
  by (cases removeNoise) (simp_all add: pipeline_audio_def Let_def)

text \<open>
  The pipeline returns a command list exactly when the \<open>normalizeAudio\<close> option is
  given as \<open>false\<close>; every other call, the one with default options among them, throws
  the \<open>TypeError\<close> of calling the boolean.
\<close>

lemma generateCompleteEditingPipeline_throws_iff:
  "(generateCompleteEditingPipeline num inputPath outputPath captions effects style options =
      Inl TypeError) =
   (opt_normalizeAudio options \<noteq> Some False)"
proof (cases "or_default True (opt_normalizeAudio options)")
  case True
  then have "opt_normalizeAudio options \<noteq> Some False"
    by (auto simp: or_default_def)
  moreover have "generateCompleteEditingPipeline num inputPath outputPath captions effects style
                   options = Inl TypeError"
    using True by (simp add: generateCompleteEditingPipeline_def pipeline_audio_def Let_def)
  ultimately show ?thesis by simp
next
  case False
  then have off: "opt_normalizeAudio options = Some False"
    by (auto simp: or_default_def split: option.splits)
  obtain commands stepOutput where
    "pipeline_audio inputPath (or_default True (opt_removeNoise options)) False =
       Inr (commands, stepOutput)"
    using pipeline_audio_off by blast
  then have "generateCompleteEditingPipeline num inputPath outputPath captions effects style
               options \<noteq> Inl TypeError"
    using False by (simp add: generateCompleteEditingPipeline_def Let_def)
  with off show ?thesis by simp
qed

end
